theory Spec2Isabelle
  imports Main "HOL-Library.Sublist"
begin

section \<open>Values, errors and panics\<close>

text \<open>
  A Go \<open>interface{}\<close> value as far as the querier looks at it: the untyped \<open>nil\<close>
  (the only value for which \<open>arg == nil\<close> holds), a typed nil pointer, or a basic value.
\<close>

datatype val = Nil | NilPtr | IntV int | StrV string

text \<open>
  Errors are values. \<open>ErrNoRows\<close> and \<open>ErrNoPK\<close> are the two sentinels of the package;
  the \<open>fmt.Errorf\<close> errors keep their arguments instead of the formatted text;
  \<open>ScanArity\<close> is the error of \<open>database/sql\<close> when the number of destinations does
  not match the row; \<open>Other\<close> is any error of a driver or of a hook.
\<close>

datatype error =
    ErrNoRows
  | ErrNoPK
  | WillNotUpdatePK string
  | UnexpectedColumns "string list"
  | NothingToUpdate
  | DifferentTables string string
  | PKPresentAbsent "val list" "val list"
  | ScanArity nat nat
  | Other string

datatype panic =
    UnhandledLastInsertIdMethod
  | RowsByUpdate int
  | RowsByDelete int
  | IndexOutOfRange
  | NilDereference

datatype 'a outcome = Return 'a | Panic panic

section \<open>Metadata: views, tables, structs, records\<close>

text \<open>
  A hook is a method of the struct type: it may change the fields and returns an error or nil.
\<close>

type_synonym hook = "val list \<Rightarrow> val list \<times> error option"

text \<open>
  A view object. \<open>vref\<close> is its address (Go compares views as interface values holding
  pointers). \<open>m\<close> is the map of \<open>ViewBase\<close>. \<open>PKColumnIndex\<close> is \<open>None\<close> for a view
  that is not a \<open>Table\<close>; the structs of a view are \<open>Record\<close>s exactly when the view is a
  \<open>Table\<close>. \<open>z\<close> holds the zero values of the struct type, and the three hooks are the
  optional methods \<open>BeforeInserter\<close>, \<open>BeforeUpdater\<close>, \<open>AfterFinder\<close> of that type.
\<close>

record view =
  vref :: nat
  Schema :: string
  Name :: string
  Columns :: "string list"
  m :: "string \<rightharpoonup> string"
  PKColumnIndex :: "nat option"
  z :: "val list"
  BeforeInsert :: "hook option"
  BeforeUpdate :: "hook option"
  AfterFind :: "hook option"

record struct =
  View :: view
  Values :: "val list"

definition HasCol :: "view \<Rightarrow> string \<Rightarrow> string \<times> bool" where
  "HasCol v field = (case m v field of Some col \<Rightarrow> (col, True) | None \<Rightarrow> ('''', False))"

definition ToCol :: "view \<Rightarrow> string \<Rightarrow> string" where
  "ToCol v field = (case m v field of Some col \<Rightarrow> col | None \<Rightarrow> field)"

definition NewStruct :: "view \<Rightarrow> struct" where
  "NewStruct v = \<lparr>View = v, Values = z v\<rparr>"

text \<open>The type assertions \<open>str.(Record)\<close> and \<open>view.(Table)\<close>.\<close>

definition isRecord :: "struct \<Rightarrow> bool" where
  "isRecord str = (PKColumnIndex (View str) \<noteq> None)"

definition pkIndex :: "view \<Rightarrow> nat" where
  "pkIndex v = (case PKColumnIndex v of Some pk \<Rightarrow> pk | None \<Rightarrow> 0)"

text \<open>
  Modelled from the spec: the methods \<open>PKValue\<close>, \<open>HasPK\<close> and \<open>SetPK\<close> of a record are
  generated code that is not part of the sources. \<open>PKValue\<close> is the value of the
  primary-key field, \<open>HasPK\<close> is the presence check "has a non-zero primary key", and
  \<open>SetPK\<close> is the primary-key setter. \<open>PKPointer\<close> is the address of the same field, so a
  scan into it is \<open>SetPK\<close> as well.
\<close>

definition PKValue :: "struct \<Rightarrow> val" where
  "PKValue r = Values r ! pkIndex (View r)"

definition HasPK :: "struct \<Rightarrow> bool" where
  "HasPK r = (PKValue r \<noteq> z (View r) ! pkIndex (View r))"

definition SetPK :: "struct \<Rightarrow> val \<Rightarrow> struct" where
  "SetPK r pk = r\<lparr>Values := (Values r)[pkIndex (View r) := pk]\<rparr>"

text \<open>
  The invariant of the data model: one value and one zero value per column, and the
  primary-key index of a table is an index into the columns.
\<close>

definition wf_view :: "view \<Rightarrow> bool" where
  "wf_view v = (length (z v) = length (Columns v) \<and>
     (case PKColumnIndex v of None \<Rightarrow> True | Some pk \<Rightarrow> pk < length (Columns v)))"

definition wf_struct :: "struct \<Rightarrow> bool" where
  "wf_struct str = (wf_view (View str) \<and> length (Values str) = length (Columns (View str)))"

section \<open>Strings\<close>

text \<open>\<open>strings.TrimLeft(c, "$")\<close> and \<open>strings.Join\<close>.\<close>

definition TrimLeft_dollar :: "string \<Rightarrow> string" where
  "TrimLeft_dollar c = dropWhile (\<lambda>ch. ch = CHR ''$'') c"

fun Join :: "string list \<Rightarrow> string \<Rightarrow> string" where
  "Join [] sep = ''''"
| "Join [x] sep = x"
| "Join (x # y # ys) sep = x @ sep @ Join (y # ys) sep"

section \<open>The column/value filter\<close>

text \<open>
  The Go map \<open>columnsSet\<close> is a list without duplicates. Go leaves the iteration order of a
  map unspecified; the model iterates in insertion order, and the theorems speak about the
  set of names only.
\<close>

definition set_add :: "string \<Rightarrow> string list \<Rightarrow> string list" where
  "set_add k ks = (if k \<in> set ks then ks else ks @ [k])"

definition set_delete :: "string \<Rightarrow> string list \<Rightarrow> string list" where
  "set_delete k ks = removeAll k ks"

text \<open>
  The variables of \<open>filteredColumnsAndValues\<close>: the two slices it reads, \<open>allColumns\<close> and
  \<open>allValues\<close>, and the ones it builds. A loop body is a function on this frame, so an
  assignment to any of them would show.
\<close>

record filter_frame =
  allColumns :: "string list"
  allValues :: "val list"
  columnsSet :: "string list"
  f_columns :: "string list"
  f_values :: "val list"
  f_err :: "error option"

text \<open>
  The loop \<open>for i, c := range allColumns\<close>: the third argument is the index, the fourth the
  columns still to visit. The result is \<open>Inl\<close> when the loop returned from the function
  (the primary-key error), \<open>Inr\<close> when it ran to its end.
\<close>

fun filter_loop :: "bool \<Rightarrow> nat \<Rightarrow> nat \<Rightarrow> string list \<Rightarrow> filter_frame
    \<Rightarrow> (filter_frame + filter_frame) outcome" where
  "filter_loop isUpdate pk i [] fr = Return (Inr fr)"
| "filter_loop isUpdate pk i (c # cs) fr =
     (if c \<in> set (columnsSet fr) then
        if isUpdate \<and> i = pk then Return (Inl (fr\<lparr>f_err := Some (WillNotUpdatePK c)\<rparr>))
        else if i < length (allValues fr) then
          filter_loop isUpdate pk (Suc i) cs
            (fr\<lparr>columnsSet := set_delete c (columnsSet fr),
                f_columns := f_columns fr @ [c],
                f_values := f_values fr @ [allValues fr ! i]\<rparr>)
        else Panic IndexOutOfRange
      else filter_loop isUpdate pk (Suc i) cs fr)"

definition filter_frame_init :: "struct \<Rightarrow> string list \<Rightarrow> filter_frame" where
  "filter_frame_init record columnsIn =
     \<lparr>allColumns = Columns (View record),
      allValues = Values record,
      columnsSet = foldl (\<lambda>s c. set_add (ToCol (View record) (TrimLeft_dollar c)) s) [] columnsIn,
      f_columns = [],
      f_values = [],
      f_err = None\<rparr>"

text \<open>
  The whole function on its frame. After the loop, names left in \<open>columnsSet\<close> replace
  \<open>columns\<close> and make the error.
\<close>

definition filter_run :: "struct \<Rightarrow> string list \<Rightarrow> bool \<Rightarrow> filter_frame outcome" where
  "filter_run record columnsIn isUpdate =
     (let fr0 = filter_frame_init record columnsIn in
      case filter_loop isUpdate (pkIndex (View record)) 0 (allColumns fr0) fr0 of
        Panic p \<Rightarrow> Panic p
      | Return (Inl fr) \<Rightarrow> Return fr
      | Return (Inr fr) \<Rightarrow>
          if length (columnsSet fr) > 0 then
            Return (fr\<lparr>f_columns := columnsSet fr,
                       f_err := Some (UnexpectedColumns (columnsSet fr))\<rparr>)
          else Return fr)"

definition filteredColumnsAndValues ::
    "struct \<Rightarrow> string list \<Rightarrow> bool \<Rightarrow> (string list \<times> val list \<times> error option) outcome" where
  "filteredColumnsAndValues record columnsIn isUpdate =
     (case filter_run record columnsIn isUpdate of
        Panic p \<Rightarrow> Panic p
      | Return fr \<Rightarrow> Return (f_columns fr, f_values fr, f_err fr))"

section \<open>Dialects\<close>

datatype LastInsertIdMethod = LastInsertId | Returning | OutputInserted | UnknownMethod int

datatype SelectLimitMethod = Limit | SelectTop

record dialect =
  Placeholder :: "int \<Rightarrow> string"
  Placeholders :: "int \<Rightarrow> nat \<Rightarrow> string list"
  QuoteIdentifier :: "string \<Rightarrow> string"
  LastInsertIdMethod :: LastInsertIdMethod
  SelectLimitMethod :: SelectLimitMethod

text \<open>\<open>strconv.Itoa\<close>.\<close>

fun digits :: "nat \<Rightarrow> string" where
  "digits n = (if n < 10 then [''0123456789'' ! n]
               else digits (n div 10) @ [''0123456789'' ! (n mod 10)])"

definition Itoa :: "int \<Rightarrow> string" where
  "Itoa i = (if i < 0 then CHR ''-'' # digits (nat (- i)) else digits (nat i))"

definition mssql :: "dialect" where
  "mssql = \<lparr>Placeholder = (\<lambda>index. ''?''),
            Placeholders = (\<lambda>start count. replicate count ''?''),
            QuoteIdentifier = (\<lambda>identifier. ''['' @ identifier @ '']''),
            LastInsertIdMethod = OutputInserted,
            SelectLimitMethod = SelectTop\<rparr>"

definition postgresql :: "dialect" where
  "postgresql = \<lparr>Placeholder = (\<lambda>index. CHR ''$'' # Itoa index),
            Placeholders = (\<lambda>start count. map (\<lambda>i. CHR ''$'' # Itoa (start + int i)) [0..<count]),
            QuoteIdentifier = (\<lambda>identifier. [CHR 0x22] @ identifier @ [CHR 0x22]),
            LastInsertIdMethod = Returning,
            SelectLimitMethod = Limit\<rparr>"

section \<open>The connection and the querier\<close>

text \<open>
  \<open>sql.Result\<close>, \<open>sql.Row\<close> and \<open>sql.Rows\<close> of \<open>database/sql\<close>. A \<open>sql.Row\<close> holds a
  deferred error or the first row of the result, if any. A \<open>sql.Rows\<close> cursor holds the rows
  it will still yield, the error \<open>Err()\<close> reports when they are exhausted, and the result
  of \<open>Close()\<close>.
\<close>

record sql_result =
  res_LastInsertId :: "error + int"
  res_RowsAffected :: "error + int"

type_synonym sql_row = "error + val list option"

record sql_rows =
  pending :: "val list list"
  rows_Err :: "error option"
  rows_Close :: "error option"

text \<open>
  What the theorems observe of a run: the statements sent to the connection, oldest first,
  and the hooks invoked, each with the fields it was invoked on.
\<close>

datatype call =
    ExecCall string "val list"
  | QueryCall string "val list"
  | QueryRowCall string "val list"

datatype hook_call =
    BeforeInsertCall "val list"
  | BeforeUpdateCall "val list"
  | AfterFindCall "val list"

record world =
  sql_log :: "call list"
  hook_log :: "hook_call list"

text \<open>
  A \<open>Querier\<close> embeds a dialect and a connection (\<open>DBTX\<close>). The connection is any
  deterministic one: each primitive answers from the statements sent so far, the statement
  and its arguments. \<open>QualifiedView\<close> and \<open>QualifiedColumns\<close> are methods of the querier
  that are not part of the sources, and \<open>Expand\<close> is \<open>os.Expand\<close> of the standard
  library: the three are parameters.
\<close>

record querier = dialect +
  dbtx_Exec :: "call list \<Rightarrow> string \<Rightarrow> val list \<Rightarrow> error + sql_result"
  dbtx_Query :: "call list \<Rightarrow> string \<Rightarrow> val list \<Rightarrow> error + sql_rows"
  dbtx_QueryRow :: "call list \<Rightarrow> string \<Rightarrow> val list \<Rightarrow> sql_row"
  QualifiedView :: "view \<Rightarrow> string"
  QualifiedColumns :: "view \<Rightarrow> string list"
  Expand :: "string \<Rightarrow> (string \<Rightarrow> string) \<Rightarrow> string"

definition Exec :: "querier \<Rightarrow> string \<Rightarrow> val list \<Rightarrow> world \<Rightarrow> (error + sql_result) \<times> world" where
  "Exec q query args w =
     (dbtx_Exec q (sql_log w) query args, w\<lparr>sql_log := sql_log w @ [ExecCall query args]\<rparr>)"

definition Query :: "querier \<Rightarrow> string \<Rightarrow> val list \<Rightarrow> world \<Rightarrow> (error + sql_rows) \<times> world" where
  "Query q query args w =
     (dbtx_Query q (sql_log w) query args, w\<lparr>sql_log := sql_log w @ [QueryCall query args]\<rparr>)"

definition QueryRow :: "querier \<Rightarrow> string \<Rightarrow> val list \<Rightarrow> world \<Rightarrow> sql_row \<times> world" where
  "QueryRow q query args w =
     (dbtx_QueryRow q (sql_log w) query args, w\<lparr>sql_log := sql_log w @ [QueryRowCall query args]\<rparr>)"

text \<open>
  \<open>Scan\<close> of a row into destinations: the number of destinations must be the number of
  columns of the row, and then every destination receives its column. The result is the
  error, or the new contents of the destinations. Conversion between the column types of
  the driver and the field types is not modelled.
\<close>

definition scan_dest :: "val list \<Rightarrow> nat \<Rightarrow> error + val list" where
  "scan_dest row n = (if length row \<noteq> n then Inl (ScanArity (length row) n) else Inr row)"

definition Row_Scan :: "sql_row \<Rightarrow> nat \<Rightarrow> error + val list" where
  "Row_Scan row n =
     (case row of
        Inl e \<Rightarrow> Inl e
      | Inr None \<Rightarrow> Inl ErrNoRows
      | Inr (Some r) \<Rightarrow> scan_dest r n)"

section \<open>Hooks\<close>

definition call_hook :: "hook \<Rightarrow> (val list \<Rightarrow> hook_call) \<Rightarrow> struct \<Rightarrow> world
    \<Rightarrow> error option \<times> struct \<times> world" where
  "call_hook h ev str w =
     (case h (Values str) of
        (vs, e) \<Rightarrow> (e, str\<lparr>Values := vs\<rparr>, w\<lparr>hook_log := hook_log w @ [ev (Values str)]\<rparr>))"

definition beforeInsert :: "querier \<Rightarrow> struct \<Rightarrow> world \<Rightarrow> error option \<times> struct \<times> world" where
  "beforeInsert q str w =
     (case BeforeInsert (View str) of
        Some bi \<Rightarrow> call_hook bi BeforeInsertCall str w
      | None \<Rightarrow> (None, str, w))"

definition beforeUpdate :: "querier \<Rightarrow> struct \<Rightarrow> world \<Rightarrow> error option \<times> struct \<times> world" where
  "beforeUpdate q record w =
     (if \<not> HasPK record then (Some ErrNoPK, record, w)
      else case BeforeUpdate (View record) of
        Some bu \<Rightarrow> call_hook bu BeforeUpdateCall record w
      | None \<Rightarrow> (None, record, w))"

text \<open>The idiom \<open>append(xs[:pk], xs[pk+1:]...)\<close>, which panics unless \<open>pk < len(xs)\<close>.\<close>

definition cut :: "nat \<Rightarrow> 'a list \<Rightarrow> 'a list" where
  "cut pk xs = take pk xs @ drop (Suc pk) xs"

section \<open>Insert\<close>

text \<open>The statement text built by \<open>insert\<close>.\<close>

definition insert_query :: "querier \<Rightarrow> struct \<Rightarrow> string list \<Rightarrow> string" where
  "insert_query q str columns =
     (let columns' = map (QuoteIdentifier q) columns;
          placeholders = Placeholders q 1 (length columns');
          view = View str;
          record = isRecord str;
          lastInsertIdMethod = LastInsertIdMethod q;
          pk = pkIndex view;
          query = ''INSERT INTO '' @ QualifiedView q view @ '' ('' @ Join columns' '', '' @ '')'';
          query = (if record \<and> lastInsertIdMethod = OutputInserted
                   then query @ '' OUTPUT INSERTED.'' @ QuoteIdentifier q (Columns view ! pk)
                   else query);
          query = query @ '' VALUES ('' @ Join placeholders '', '' @ '')'';
          query = (if record \<and> lastInsertIdMethod = Returning
                   then query @ '' RETURNING '' @ QuoteIdentifier q (Columns view ! pk)
                   else query)
      in query)"

text \<open>
  \<open>Querier.insert\<close>. The first test is the index check of \<open>view.Columns()[pk]\<close> in the two
  branches that read it.
\<close>

definition q_insert :: "querier \<Rightarrow> struct \<Rightarrow> string list \<Rightarrow> val list \<Rightarrow> world
    \<Rightarrow> error option outcome \<times> struct \<times> world" where
  "q_insert q str columns values w =
     (let view = View str;
          record = isRecord str;
          lastInsertIdMethod = LastInsertIdMethod q;
          query = insert_query q str columns
      in
      if record \<and> (lastInsertIdMethod = OutputInserted \<or> lastInsertIdMethod = Returning)
         \<and> \<not> pkIndex view < length (Columns view)
      then (Panic IndexOutOfRange, str, w)
      else case lastInsertIdMethod of
        LastInsertId \<Rightarrow>
          (case Exec q (Expand q query (ToCol view)) values w of
             (Inl err, w') \<Rightarrow> (Return (Some err), str, w')
           | (Inr res, w') \<Rightarrow>
               if record then
                 (case res_LastInsertId res of
                    Inl err \<Rightarrow> (Return (Some err), str, w')
                  | Inr id1 \<Rightarrow> (Return None, SetPK str (IntV id1), w'))
               else (Return None, str, w'))
      | UnknownMethod n \<Rightarrow> (Panic UnhandledLastInsertIdMethod, str, w)
      | _ \<Rightarrow>
          if record then
            (case QueryRow q query values w of
               (row, w') \<Rightarrow>
                 (case Row_Scan row 1 of
                    Inl err \<Rightarrow> (Return (Some err), str, w')
                  | Inr vs \<Rightarrow> (Return None, SetPK str (vs ! 0), w')))
          else
            (case Exec q (Expand q query (ToCol view)) values w of
               (Inl err, w') \<Rightarrow> (Return (Some err), str, w')
             | (Inr res, w') \<Rightarrow> (Return None, str, w')))"

definition Insert :: "querier \<Rightarrow> struct \<Rightarrow> world \<Rightarrow> error option outcome \<times> struct \<times> world" where
  "Insert q str w =
     (case beforeInsert q str w of
        (Some err, str1, w1) \<Rightarrow> (Return (Some err), str1, w1)
      | (None, str1, w1) \<Rightarrow>
          (let view = View str1; values = Values str1; columns = Columns view; pk = pkIndex view in
           if isRecord str1 \<and> \<not> HasPK str1 then
             if pk < length values \<and> pk < length columns
             then q_insert q str1 (cut pk columns) (cut pk values) w1
             else (Panic IndexOutOfRange, str1, w1)
           else q_insert q str1 columns values w1))"

text \<open>
  \<open>InsertColumns\<close>. For a struct that is not a record, \<open>record\<close> is nil: \<open>beforeInsert\<close>
  finds no hook on it, and the filter dereferences it.
\<close>

definition InsertColumns :: "querier \<Rightarrow> struct \<Rightarrow> string list \<Rightarrow> world
    \<Rightarrow> error option outcome \<times> struct \<times> world" where
  "InsertColumns q str columns w =
     (if \<not> isRecord str then (Panic NilDereference, str, w)
      else case beforeInsert q str w of
        (Some err, str1, w1) \<Rightarrow> (Return (Some err), str1, w1)
      | (None, str1, w1) \<Rightarrow>
          (case filteredColumnsAndValues str1 columns False of
             Panic p \<Rightarrow> (Panic p, str1, w1)
           | Return (cols, values, Some err) \<Rightarrow> (Return (Some err), str1, w1)
           | Return (cols, values, None) \<Rightarrow> q_insert q str1 cols values w1))"

subsection \<open>InsertMulti\<close>




section \<open>Update, Save, Delete\<close>

text \<open>
  \<open>Querier.update\<close>. The two tests are the index checks of \<open>placeholders[i]\<close> and of
  \<open>table.Columns()[table.PKColumnIndex()]\<close>.
\<close>

definition update_query :: "querier \<Rightarrow> struct \<Rightarrow> string list \<Rightarrow> string" where
  "update_query q record columns =
     (let columns' = map (QuoteIdentifier q) columns;
          placeholders = Placeholders q 1 (length columns');
          p = map (\<lambda>i. columns' ! i @ '' = '' @ placeholders ! i) [0..<length columns'];
          table = View record
      in ''UPDATE '' @ QualifiedView q table @ '' SET '' @ Join p '', '' @ '' WHERE ''
           @ QuoteIdentifier q (Columns table ! pkIndex table) @ '' = ''
           @ Placeholder q (int (length columns') + 1))"

definition q_update :: "querier \<Rightarrow> struct \<Rightarrow> string list \<Rightarrow> val list \<Rightarrow> world
    \<Rightarrow> error option outcome \<times> world" where
  "q_update q record columns values w =
     (let table = View record in
      if length (Placeholders q 1 (length columns)) < length columns then (Panic IndexOutOfRange, w)
      else if \<not> pkIndex table < length (Columns table) then (Panic IndexOutOfRange, w)
      else
        let query = update_query q record columns;
            args = values @ [PKValue record]
        in
        case Exec q (Expand q query (ToCol table)) args w of
          (Inl err, w') \<Rightarrow> (Return (Some err), w')
        | (Inr res, w') \<Rightarrow>
            (case res_RowsAffected res of
               Inl err \<Rightarrow> (Return (Some err), w')
             | Inr ra \<Rightarrow>
                 if ra = 0 then (Return (Some ErrNoRows), w')
                 else if ra > 1 then (Panic (RowsByUpdate ra), w')
                 else (Return None, w')))"

definition Update :: "querier \<Rightarrow> struct \<Rightarrow> world \<Rightarrow> error option outcome \<times> struct \<times> world" where
  "Update q record w =
     (case beforeUpdate q record w of
        (Some err, record1, w1) \<Rightarrow> (Return (Some err), record1, w1)
      | (None, record1, w1) \<Rightarrow>
          (let table = View record1; values = Values record1; columns = Columns table;
               pk = pkIndex table
           in
           if pk < length values \<and> pk < length columns then
             (case q_update q record1 (cut pk columns) (cut pk values) w1 of
                (r, w2) \<Rightarrow> (r, record1, w2))
           else (Panic IndexOutOfRange, record1, w1)))"

definition UpdateColumns :: "querier \<Rightarrow> struct \<Rightarrow> string list \<Rightarrow> world
    \<Rightarrow> error option outcome \<times> struct \<times> world" where
  "UpdateColumns q record columns w =
     (case beforeUpdate q record w of
        (Some err, record1, w1) \<Rightarrow> (Return (Some err), record1, w1)
      | (None, record1, w1) \<Rightarrow>
          (case filteredColumnsAndValues record1 columns True of
             Panic p \<Rightarrow> (Panic p, record1, w1)
           | Return (cols, values, Some err) \<Rightarrow> (Return (Some err), record1, w1)
           | Return (cols, values, None) \<Rightarrow>
               if length values = 0 then (Return (Some NothingToUpdate), record1, w1)
               else (case q_update q record1 cols values w1 of
                       (r, w2) \<Rightarrow> (r, record1, w2))))"

definition Save :: "querier \<Rightarrow> struct \<Rightarrow> world \<Rightarrow> error option outcome \<times> struct \<times> world" where
  "Save q record w =
     (if HasPK record then
        (case Update q record w of
           (Return err, record1, w1) \<Rightarrow>
             if err \<noteq> Some ErrNoRows then (Return err, record1, w1)
             else Insert q record1 w1
         | (Panic p, record1, w1) \<Rightarrow> (Panic p, record1, w1))
      else Insert q record w)"

definition delete_query :: "querier \<Rightarrow> struct \<Rightarrow> string" where
  "delete_query q record =
     (let table = View record; pk = pkIndex table in
      ''DELETE FROM '' @ QualifiedView q table @ '' WHERE ''
        @ QuoteIdentifier q (Columns table ! pk) @ '' = '' @ Placeholder q 1)"

definition Delete :: "querier \<Rightarrow> struct \<Rightarrow> world \<Rightarrow> error option outcome \<times> world" where
  "Delete q record w =
     (if \<not> HasPK record then (Return (Some ErrNoPK), w)
      else
        let table = View record; pk = pkIndex table in
        if \<not> pk < length (Columns table) then (Panic IndexOutOfRange, w)
        else
          case Exec q (Expand q (delete_query q record) (ToCol table)) [PKValue record] w of
            (Inl err, w') \<Rightarrow> (Return (Some err), w')
          | (Inr res, w') \<Rightarrow>
              (case res_RowsAffected res of
                 Inl err \<Rightarrow> (Return (Some err), w')
               | Inr ra \<Rightarrow>
                   if ra = 0 then (Return (Some ErrNoRows), w')
                   else if ra > 1 then (Panic (RowsByDelete ra), w')
                   else (Return None, w')))"

section \<open>Selects\<close>

text \<open>
  Modelled from the spec: \<open>Pointers\<close> is generated code, "the ordered addressable-pointer
  sequence", one pointer per column. A scan into the pointers of a struct therefore takes
  as many columns as the struct has fields and replaces the fields.
\<close>

definition Pointers :: "struct \<Rightarrow> nat" where
  "Pointers str = length (Values str)"

definition afterFind :: "struct \<Rightarrow> world \<Rightarrow> error option \<times> struct \<times> world" where
  "afterFind str w =
     (case AfterFind (View str) of
        Some af \<Rightarrow> call_hook af AfterFindCall str w
      | None \<Rightarrow> (None, str, w))"

text \<open>\<open>rows.Next()\<close>: whether there is a row, and the cursor after the call.\<close>

definition rows_Next :: "sql_rows \<Rightarrow> val list option \<times> sql_rows" where
  "rows_Next rows =
     (case pending rows of
        [] \<Rightarrow> (None, rows)
      | r # rest \<Rightarrow> (Some r, rows\<lparr>pending := rest\<rparr>))"

definition NextRow :: "querier \<Rightarrow> struct \<Rightarrow> sql_rows \<Rightarrow> world
    \<Rightarrow> error option \<times> struct \<times> sql_rows \<times> world" where
  "NextRow q str rows w =
     (case rows_Next rows of
        (None, rows') \<Rightarrow>
          (case rows_Err rows' of
             None \<Rightarrow> (Some ErrNoRows, str, rows', w)
           | Some err \<Rightarrow> (Some err, str, rows', w))
      | (Some r, rows') \<Rightarrow>
          (case scan_dest r (Pointers str) of
             Inl err \<Rightarrow> (Some err, str, rows', w)
           | Inr vs \<Rightarrow>
               (case afterFind (str\<lparr>Values := vs\<rparr>) w of
                  (err, str', w') \<Rightarrow> (err, str', rows', w'))))"

definition selectQuery :: "querier \<Rightarrow> view \<Rightarrow> string \<Rightarrow> bool \<Rightarrow> string" where
  "selectQuery q view tail limit1 =
     (let command = ''SELECT'';
          command = (if limit1 \<and> SelectLimitMethod q = SelectTop then command @ '' TOP 1''
                     else command)
      in command @ '' '' @ Join (QualifiedColumns q view) '', '' @ '' FROM ''
           @ QualifiedView q view @ '' '' @ tail)"

definition SelectOneTo :: "querier \<Rightarrow> struct \<Rightarrow> string \<Rightarrow> val list \<Rightarrow> world
    \<Rightarrow> error option \<times> struct \<times> world" where
  "SelectOneTo q str tail args w =
     (let query = selectQuery q (View str) tail True in
      case QueryRow q (Expand q query (ToCol (View str))) args w of
        (row, w') \<Rightarrow>
          (case Row_Scan row (Pointers str) of
             Inl err \<Rightarrow> (Some err, str, w')
           | Inr vs \<Rightarrow> afterFind (str\<lparr>Values := vs\<rparr>) w'))"

definition SelectOneFrom :: "querier \<Rightarrow> view \<Rightarrow> string \<Rightarrow> val list \<Rightarrow> world
    \<Rightarrow> struct option \<times> error option \<times> world" where
  "SelectOneFrom q view tail args w =
     (case SelectOneTo q (NewStruct view) tail args w of
        (Some err, str, w') \<Rightarrow> (None, Some err, w')
      | (None, str, w') \<Rightarrow> (Some str, None, w'))"

definition SelectRows :: "querier \<Rightarrow> view \<Rightarrow> string \<Rightarrow> val list \<Rightarrow> world
    \<Rightarrow> (error + sql_rows) \<times> world" where
  "SelectRows q view tail args w =
     (let query = selectQuery q view tail False in
      Query q (Expand q query (ToCol view)) args w)"

text \<open>
  The loop of \<open>SelectAllFrom\<close>. It ends because every successful \<open>NextRow\<close> takes a row
  from the cursor.
\<close>

function SelectAllFrom_loop :: "querier \<Rightarrow> view \<Rightarrow> sql_rows \<Rightarrow> struct list \<Rightarrow> world
    \<Rightarrow> struct list \<times> error option \<times> sql_rows \<times> world" where
  "SelectAllFrom_loop q view rows structs w =
     (case NextRow q (NewStruct view) rows w of
        (Some err, str, rows', w') \<Rightarrow>
          (structs, (if err = ErrNoRows then None else Some err), rows', w')
      | (None, str, rows', w') \<Rightarrow> SelectAllFrom_loop q view rows' (structs @ [str]) w')"
  by pat_completeness auto
termination
proof (relation "measure (\<lambda>(q, view, rows, structs, w). length (pending rows))")
  show "wf (measure (\<lambda>(q, view, rows, structs, w). length (pending rows)))"
    by simp
next
  fix q :: querier and view :: view and rows :: sql_rows and structs :: "struct list"
    and w :: world and x and y and str and yb and rows' and w'
  assume "(x, y) = NextRow q (NewStruct view) rows w" "x = None"
    "(str, yb) = y" "(rows', w') = yb"
  then have n: "NextRow q (NewStruct view) rows w = (None, str, rows', w')"
    by simp
  have "length (pending rows') < length (pending rows)"
    using n
    by (auto simp: NextRow_def rows_Next_def split: list.splits option.splits sum.splits prod.splits)
  then show "((q, view, rows', structs @ [str], w'), (q, view, rows, structs, w))
      \<in> measure (\<lambda>(q, view, rows, structs, w). length (pending rows))"
    by simp
qed

declare SelectAllFrom_loop.simps [simp del]

text \<open>
  \<open>SelectAllFrom\<close>, with the deferred \<open>rows.Close()\<close> whose error is kept only when
  there is none yet.
\<close>

definition SelectAllFrom :: "querier \<Rightarrow> view \<Rightarrow> string \<Rightarrow> val list \<Rightarrow> world
    \<Rightarrow> struct list \<times> error option \<times> world" where
  "SelectAllFrom q view tail args w =
     (case SelectRows q view tail args w of
        (Inl err, w') \<Rightarrow> ([], Some err, w')
      | (Inr rows, w') \<Rightarrow>
          (case SelectAllFrom_loop q view rows [] w' of
             (structs, err, rows', w'') \<Rightarrow>
               (let e = rows_Close rows' in
                (structs, (if err = None then e else err), w''))))"

subsection \<open>Finders\<close>

definition findTail :: "querier \<Rightarrow> string \<Rightarrow> string \<Rightarrow> val \<Rightarrow> bool \<Rightarrow> string \<times> bool" where
  "findTail q view column arg limit1 =
     (let qi = QuoteIdentifier q view @ ''.'' @ QuoteIdentifier q column;
          (tail, needArg) =
             (if arg = Nil then (''WHERE '' @ qi @ '' IS NULL'', False)
              else (''WHERE '' @ qi @ '' = '' @ Placeholder q 1, True));
          tail = (if limit1 \<and> SelectLimitMethod q = Limit then tail @ '' LIMIT 1'' else tail)
      in (tail, needArg))"

definition FindOneTo :: "querier \<Rightarrow> struct \<Rightarrow> string \<Rightarrow> val \<Rightarrow> world
    \<Rightarrow> error option \<times> struct \<times> world" where
  "FindOneTo q str column arg w =
     (case findTail q (Name (View str)) column arg True of
        (tail, needArg) \<Rightarrow>
          if needArg then SelectOneTo q str tail [arg] w
          else SelectOneTo q str tail [] w)"

definition FindOneFrom :: "querier \<Rightarrow> view \<Rightarrow> string \<Rightarrow> val \<Rightarrow> world
    \<Rightarrow> struct option \<times> error option \<times> world" where
  "FindOneFrom q view column arg w =
     (case findTail q (Name view) column arg True of
        (tail, needArg) \<Rightarrow>
          if needArg then SelectOneFrom q view tail [arg] w
          else SelectOneFrom q view tail [] w)"

definition FindRows :: "querier \<Rightarrow> view \<Rightarrow> string \<Rightarrow> val \<Rightarrow> world
    \<Rightarrow> (error + sql_rows) \<times> world" where
  "FindRows q view column arg w =
     (case findTail q (Name view) column arg False of
        (tail, needArg) \<Rightarrow>
          if needArg then SelectRows q view tail [arg] w
          else SelectRows q view tail [] w)"

text \<open>
  \<open>FindByPrimaryKeyTo\<close> and \<open>Reload\<close>. The test is the index check of
  \<open>table.Columns()[table.PKColumnIndex()]\<close>.
\<close>

definition FindByPrimaryKeyTo :: "querier \<Rightarrow> struct \<Rightarrow> val \<Rightarrow> world
    \<Rightarrow> error option outcome \<times> struct \<times> world" where
  "FindByPrimaryKeyTo q record pk w =
     (let table = View record in
      if \<not> pkIndex table < length (Columns table) then (Panic IndexOutOfRange, record, w)
      else case FindOneTo q record (Columns table ! pkIndex table) pk w of
        (err, record', w') \<Rightarrow> (Return err, record', w'))"

definition Reload :: "querier \<Rightarrow> struct \<Rightarrow> world \<Rightarrow> error option outcome \<times> struct \<times> world" where
  "Reload q record w = FindByPrimaryKeyTo q record (PKValue record) w"

text \<open>The tail and the arguments of the SELECT that \<open>Reload\<close> sends.\<close>

definition reload_tail :: "querier \<Rightarrow> struct \<Rightarrow> string" where
  "reload_tail q record = fst (findTail q (Name (View record))
      (Columns (View record) ! pkIndex (View record)) (PKValue record) True)"

definition reload_args :: "querier \<Rightarrow> struct \<Rightarrow> val list" where
  "reload_args q record = (if PKValue record = Nil then [] else [PKValue record])"

section \<open>Names of the specification\<close>

text \<open>
  The requested names after normalization (the leading marker stripped, then the lookup of
  the view), and those among them that are no column of the view.
\<close>

definition requested :: "view \<Rightarrow> string list \<Rightarrow> string set" where
  "requested v columnsIn = (\<lambda>c. ToCol v (TrimLeft_dollar c)) ` set columnsIn"

definition unmatched :: "view \<Rightarrow> string list \<Rightarrow> string set" where
  "unmatched v columnsIn = requested v columnsIn - set (Columns v)"

section \<open>Fixtures\<close>

text \<open>
  A table with the columns \<open>id\<close> (primary key), \<open>name\<close> and \<open>age\<close> and no hooks, and two
  of its records: one with a primary key, one without.
\<close>

definition people :: view where
  "people = \<lparr>vref = 1, Schema = '''', Name = ''people'',
     Columns = [''id'', ''name'', ''age''],
     m = [''ID'' \<mapsto> ''id'', ''id'' \<mapsto> ''id'', ''Name'' \<mapsto> ''name'',
          ''name'' \<mapsto> ''name'', ''Age'' \<mapsto> ''age'', ''age'' \<mapsto> ''age''],
     PKColumnIndex = Some 0, z = [IntV 0, StrV '''', IntV 0],
     BeforeInsert = None, BeforeUpdate = None, AfterFind = None\<rparr>"

definition alice :: struct where
  "alice = \<lparr>View = people, Values = [IntV 7, StrV ''Alice'', IntV 30]\<rparr>"

definition bob :: struct where
  "bob = \<lparr>View = people, Values = [IntV 0, StrV ''Bob'', IntV 41]\<rparr>"

text \<open>
  A dialect that reports keys through \<open>LastInsertId\<close>, and a querier over a connection that
  gives every \<open>Exec\<close>, \<open>Query\<close> and \<open>QueryRow\<close> the same answer. Its \<open>QualifiedView\<close>
  quotes the name of the view and its \<open>Expand\<close> leaves the statement as it is.
\<close>

definition lastid_dialect :: dialect where
  "lastid_dialect = \<lparr>Placeholder = (\<lambda>index. ''?''),
            Placeholders = (\<lambda>start count. replicate count ''?''),
            QuoteIdentifier = (\<lambda>identifier. [CHR 0x22] @ identifier @ [CHR 0x22]),
            LastInsertIdMethod = LastInsertId,
            SelectLimitMethod = Limit\<rparr>"

definition stub_querier :: "dialect \<Rightarrow> (error + sql_result) \<Rightarrow> (error + sql_rows) \<Rightarrow> sql_row
    \<Rightarrow> querier" where
  "stub_querier d e rs r =
     \<lparr>Placeholder = Placeholder d,
      Placeholders = Placeholders d,
      QuoteIdentifier = QuoteIdentifier d,
      LastInsertIdMethod = LastInsertIdMethod d,
      SelectLimitMethod = SelectLimitMethod d,
      dbtx_Exec = (\<lambda>log query args. e),
      dbtx_Query = (\<lambda>log query args. rs),
      dbtx_QueryRow = (\<lambda>log query args. r),
      QualifiedView = (\<lambda>v. QuoteIdentifier d (Name v)),
      QualifiedColumns = (\<lambda>v. map (\<lambda>c. QuoteIdentifier d (Name v) @ ''.'' @ QuoteIdentifier d c)
                                 (Columns v)),
      Expand = (\<lambda>s mapping. s)\<rparr>"

definition affected :: "int \<Rightarrow> error + sql_result" where
  "affected n = Inr \<lparr>res_LastInsertId = Inr 0, res_RowsAffected = Inr n\<rparr>"

definition inserted :: "int \<Rightarrow> error + sql_result" where
  "inserted k = Inr \<lparr>res_LastInsertId = Inr k, res_RowsAffected = Inr 1\<rparr>"

definition no_rows :: "error + sql_rows" where
  "no_rows = Inr \<lparr>pending = [], rows_Err = None, rows_Close = None\<rparr>"

definition w0 :: world where
  "w0 = \<lparr>sql_log = [], hook_log = []\<rparr>"

section \<open>Save, in the words of the specification\<close>

text \<open>
  If the record has a primary key set, attempt the update, and return its result unless it
  reports "no such row", in which case fall through to the insert; if the record has no
  primary key, go straight to the insert.
\<close>

definition Save_spec :: "querier \<Rightarrow> struct \<Rightarrow> world \<Rightarrow> error option outcome \<times> struct \<times> world" where
  "Save_spec q record w =
     (if HasPK record then
        (case Update q record w of
           (result, record1, w1) \<Rightarrow>
             if result = Return (Some ErrNoRows) then Insert q record1 w1
             else (result, record1, w1))
      else Insert q record w)"

section \<open>Fixtures with hooks\<close>


definition refused :: view where
  "refused = people\<lparr>vref := 3,
     BeforeInsert := Some (\<lambda>vs. (vs, Some (Other ''refused''))),
     AfterFind := Some (\<lambda>vs. (vs[2 := IntV 18], Some (Other ''refused'')))\<rparr>"

section \<open>Rows of a select\<close>

text \<open>
  A row is valid for a view when \<open>NextRow\<close> succeeds on it: it has one column per field of
  the struct, and the post-fetch hook, if there is one, succeeds on the scanned fields.
  \<open>materialized\<close> is the struct \<open>NextRow\<close> then leaves: a new struct of the view with
  the row scanned into it and the hook applied.
\<close>

definition valid_row :: "view \<Rightarrow> val list \<Rightarrow> bool" where
  "valid_row view r =
     (length r = length (z view) \<and>
      (case AfterFind view of None \<Rightarrow> True | Some af \<Rightarrow> snd (af r) = None))"

definition materialized :: "view \<Rightarrow> val list \<Rightarrow> struct" where
  "materialized view r =
     (case AfterFind view of
        None \<Rightarrow> \<lparr>View = view, Values = r\<rparr>
      | Some af \<Rightarrow> \<lparr>View = view, Values = fst (af r)\<rparr>)"

text \<open>A cursor that yields two rows and then fails.\<close>

definition two_rows_then_error :: sql_rows where
  "two_rows_then_error =
     \<lparr>pending = [[IntV 1, StrV ''Ann'', IntV 20], [IntV 2, StrV ''Ben'', IntV 21]],
      rows_Err = Some (Other ''connection lost''),
      rows_Close = None\<rparr>"

section \<open>Properties of the column/value filter\<close>



lemma set_foldl_set_add: "set (foldl (\<lambda>s c. set_add (f c) s) acc cs) = set acc \<union> f ` set cs"
  by (induction cs arbitrary: acc) (auto simp: set_add_def)

lemma distinct_foldl_set_add: "distinct acc \<Longrightarrow> distinct (foldl (\<lambda>s c. set_add (f c) s) acc cs)"
  by (induction cs arbitrary: acc) (auto simp: set_add_def)

lemma filter_frame_init_simps:
  "allColumns (filter_frame_init record columnsIn) = Columns (View record)"
  "allValues (filter_frame_init record columnsIn) = Values record"
  "set (columnsSet (filter_frame_init record columnsIn)) = requested (View record) columnsIn"
  "distinct (columnsSet (filter_frame_init record columnsIn))"
  "f_columns (filter_frame_init record columnsIn) = []"
  "f_values (filter_frame_init record columnsIn) = []"
  "f_err (filter_frame_init record columnsIn) = None"
  by (simp_all add: filter_frame_init_def set_foldl_set_add distinct_foldl_set_add requested_def)

lemma filter_loop_frame:
  "filter_loop isUpdate pk i cs fr = Return r \<Longrightarrow> fr' = (case r of Inl a \<Rightarrow> a | Inr a \<Rightarrow> a) \<Longrightarrow>
   allColumns fr' = allColumns fr \<and> allValues fr' = allValues fr \<and>
   (distinct (columnsSet fr) \<longrightarrow> distinct (columnsSet fr'))"
  by (induction isUpdate pk i cs fr rule: filter_loop.induct)
     (auto simp: set_delete_def distinct_removeAll split: if_splits)

lemma filter_loop_err:
  "filter_loop isUpdate pk i cs fr = Return r \<Longrightarrow>
   (case r of Inl a \<Rightarrow> (\<exists>c. f_err a = Some (WillNotUpdatePK c)) | Inr a \<Rightarrow> f_err a = f_err fr)"
  by (induction isUpdate pk i cs fr rule: filter_loop.induct) (auto split: if_splits sum.splits)

lemma filter_loop_Inr_set:
  "filter_loop isUpdate pk i cs fr = Return (Inr fr') \<Longrightarrow>
   set (columnsSet fr') = set (columnsSet fr) - set cs"
  by (induction isUpdate pk i cs fr rule: filter_loop.induct) (auto simp: set_delete_def split: if_splits)

lemma filter_loop_runs:
  "i + length cs \<le> length (allValues fr) \<Longrightarrow>
   (isUpdate \<longrightarrow> (\<forall>j. i + j = pk \<longrightarrow> j < length cs \<longrightarrow> cs ! j \<notin> set (columnsSet fr))) \<Longrightarrow>
   \<exists>fr'. filter_loop isUpdate pk i cs fr = Return (Inr fr')"
proof (induction isUpdate pk i cs fr rule: filter_loop.induct)
  case (1 isUpdate pk i fr)
  then show ?case by simp
next
  case (2 isUpdate pk i c cs fr)
  have len: "Suc i + length cs \<le> length (allValues fr)" using "2.prems"(1) by simp
  have guard: "isUpdate \<longrightarrow> (\<forall>j. Suc i + j = pk \<longrightarrow> j < length cs \<longrightarrow> cs ! j \<notin> set (columnsSet fr))"
  proof (intro impI allI)
    fix j assume "isUpdate" "Suc i + j = pk" "j < length cs"
    with "2.prems"(2) have "(c # cs) ! Suc j \<notin> set (columnsSet fr)"
      by (metis add_Suc_shift length_Cons Suc_less_eq)
    then show "cs ! j \<notin> set (columnsSet fr)" by simp
  qed
  show ?case
  proof (cases "c \<in> set (columnsSet fr)")
    case False
    from "2.IH"(2) [OF False len guard] False show ?thesis by simp
  next
    case True
    have nopk: "\<not> (isUpdate \<and> i = pk)"
    proof
      assume "isUpdate \<and> i = pk"
      with "2.prems"(2) have "(c # cs) ! 0 \<notin> set (columnsSet fr)" by (metis add.right_neutral length_Cons zero_less_Suc)
      with True show False by simp
    qed
    have inb: "i < length (allValues fr)" using "2.prems"(1) by simp
    let ?fr2 = "fr\<lparr>columnsSet := set_delete c (columnsSet fr),
                f_columns := f_columns fr @ [c],
                f_values := f_values fr @ [allValues fr ! i]\<rparr>"
    have len2: "Suc i + length cs \<le> length (allValues ?fr2)" using len by simp
    have guard2: "isUpdate \<longrightarrow> (\<forall>j. Suc i + j = pk \<longrightarrow> j < length cs \<longrightarrow> cs ! j \<notin> set (columnsSet ?fr2))"
      using guard by (auto simp: set_delete_def)
    from "2.IH"(1) [OF True nopk inb len2 guard2] True nopk inb show ?thesis by simp
  qed
qed

lemma filter_run_Return:
  assumes "filter_run record columnsIn isUpdate = Return fr"
  shows "\<exists>r. filter_loop isUpdate (pkIndex (View record)) 0 (Columns (View record))
            (filter_frame_init record columnsIn) = Return r \<and>
         (case r of Inl a \<Rightarrow> fr = a
          | Inr a \<Rightarrow> if columnsSet a = [] then fr = a
                     else fr = a\<lparr>f_columns := columnsSet a, f_err := Some (UnexpectedColumns (columnsSet a))\<rparr>)"
  using assms
  by (auto simp: filter_run_def Let_def filter_frame_init_simps split: outcome.splits sum.splits if_splits)




lemma beforeInsert_frame:
  "beforeInsert q str w = (e, str1, w1) \<Longrightarrow> sql_log w1 = sql_log w \<and> View str1 = View str"
  by (auto simp: beforeInsert_def call_hook_def split: option.splits prod.splits)

lemma beforeUpdate_frame:
  "beforeUpdate q str w = (e, str1, w1) \<Longrightarrow> sql_log w1 = sql_log w \<and> View str1 = View str"
  by (auto simp: beforeUpdate_def call_hook_def split: option.splits prod.splits if_splits)

lemma filtered_not_ok:
  assumes um: "unmatched (View record) columnsIn \<noteq> {}"
  shows "filteredColumnsAndValues record columnsIn isUpdate \<noteq> Return (columns, values, None)"
proof
  let ?fr0 = "filter_frame_init record columnsIn"
  assume run: "filteredColumnsAndValues record columnsIn isUpdate = Return (columns, values, None)"
  then obtain fr where fr: "filter_run record columnsIn isUpdate = Return fr" and e: "f_err fr = None"
    by (auto simp: filteredColumnsAndValues_def split: outcome.splits)
  from filter_run_Return [OF fr] obtain r where
    loop: "filter_loop isUpdate (pkIndex (View record)) 0 (Columns (View record)) ?fr0 = Return r"
    and r: "case r of Inl a \<Rightarrow> fr = a
          | Inr a \<Rightarrow> if columnsSet a = [] then fr = a
                     else fr = a\<lparr>f_columns := columnsSet a, f_err := Some (UnexpectedColumns (columnsSet a))\<rparr>"
    by blast
  from r e filter_loop_err [OF loop] obtain a where a: "r = Inr a" "columnsSet a = []"
    by (auto split: sum.splits if_splits)
  from filter_loop_Inr_set [OF loop [unfolded a(1)]] a(2) um show False
    by (simp add: filter_frame_init_simps unmatched_def)
qed

lemma filtered_unexpected:
  assumes um: "unmatched (View record) columnsIn \<noteq> {}"
    and len: "length (Values record) = length (Columns (View record))"
    and nopk: "isUpdate \<longrightarrow> Columns (View record) ! pkIndex (View record) \<notin> requested (View record) columnsIn"
  shows "\<exists>names values. filteredColumnsAndValues record columnsIn isUpdate
            = Return (names, values, Some (UnexpectedColumns names))
          \<and> set names = unmatched (View record) columnsIn \<and> distinct names"
proof -
  let ?fr0 = "filter_frame_init record columnsIn"
  have "\<exists>fr'. filter_loop isUpdate (pkIndex (View record)) 0 (Columns (View record)) ?fr0 = Return (Inr fr')"
    using len nopk by (intro filter_loop_runs) (auto simp: filter_frame_init_simps)
  then obtain a where loop: "filter_loop isUpdate (pkIndex (View record)) 0 (Columns (View record)) ?fr0 = Return (Inr a)"
    by blast
  from filter_loop_Inr_set [OF loop] have s: "set (columnsSet a) = unmatched (View record) columnsIn"
    by (simp add: filter_frame_init_simps unmatched_def)
  with um have ne: "columnsSet a \<noteq> []" by auto
  from filter_loop_frame [OF loop refl] have d: "distinct (columnsSet a)"
    by (simp add: filter_frame_init_simps)
  have "filteredColumnsAndValues record columnsIn isUpdate
      = Return (columnsSet a, f_values a, Some (UnexpectedColumns (columnsSet a)))"
    using loop ne by (simp add: filteredColumnsAndValues_def filter_run_def Let_def filter_frame_init_simps)
  with s d show ?thesis by blast
qed

lemmas fixture_defs = alice_def bob_def people_def w0_def stub_querier_def affected_def inserted_def
  no_rows_def lastid_dialect_def mssql_def postgresql_def

lemmas filter_defs = filteredColumnsAndValues_def filter_run_def filter_frame_init_def
  ToCol_def TrimLeft_dollar_def set_add_def set_delete_def pkIndex_def

text \<open>
  C7, as amended. For a requested list with names that match no column of the table after
  normalization:
  \<^item> in insert mode, and in update mode when the primary-key column is not among the
    requested names, the filter fails with the unknown-column error, whose names are exactly
    the unmatched names, every one of them once;
  \<^item> \<open>InsertColumns\<close> and \<open>UpdateColumns\<close> send no statement to the connection,
    whatever else happens;
  \<^item> \<open>InsertColumns\<close> on a record returns that error once the pre-insert hook has
    succeeded, and \<open>UpdateColumns\<close> returns it once \<open>beforeUpdate\<close> has succeeded (the
    primary key is set and the pre-update hook succeeds) and the primary-key column is not
    requested.
\<close>

theorem unmatched_columns_rejected:
  assumes um: "unmatched (View record) columnsIn \<noteq> {}"
  shows "(length (Values record) = length (Columns (View record))
          \<and> (isUpdate \<longrightarrow> Columns (View record) ! pkIndex (View record)
                \<notin> requested (View record) columnsIn)
          \<longrightarrow> (\<exists>names values. filteredColumnsAndValues record columnsIn isUpdate
                   = Return (names, values, Some (UnexpectedColumns names))
                 \<and> set names = unmatched (View record) columnsIn \<and> distinct names))
       \<and> sql_log (snd (snd (InsertColumns q record columnsIn w))) = sql_log w
       \<and> sql_log (snd (snd (UpdateColumns q record columnsIn w))) = sql_log w
       \<and> (isRecord record \<and> beforeInsert q record w = (None, record1, w1)
          \<and> length (Values record1) = length (Columns (View record))
          \<longrightarrow> (\<exists>names. InsertColumns q record columnsIn w
                   = (Return (Some (UnexpectedColumns names)), record1, w1)
                 \<and> set names = unmatched (View record) columnsIn))
       \<and> (beforeUpdate q record w = (None, record2, w2)
          \<and> length (Values record2) = length (Columns (View record))
          \<and> Columns (View record) ! pkIndex (View record) \<notin> requested (View record) columnsIn
          \<longrightarrow> (\<exists>names. UpdateColumns q record columnsIn w
                   = (Return (Some (UnexpectedColumns names)), record2, w2)
                 \<and> set names = unmatched (View record) columnsIn))"
proof (intro conjI impI)
  assume "length (Values record) = length (Columns (View record))
          \<and> (isUpdate \<longrightarrow> Columns (View record) ! pkIndex (View record)
                \<notin> requested (View record) columnsIn)"
  then show "\<exists>names values. filteredColumnsAndValues record columnsIn isUpdate
                   = Return (names, values, Some (UnexpectedColumns names))
                 \<and> set names = unmatched (View record) columnsIn \<and> distinct names"
    using filtered_unexpected [OF um] by blast
next
  show "sql_log (snd (snd (InsertColumns q record columnsIn w))) = sql_log w"
  proof (cases "isRecord record")
    case False
    then show ?thesis by (simp add: InsertColumns_def)
  next
    case True
    obtain e str1 w1 where b: "beforeInsert q record w = (e, str1, w1)"
      by (cases "beforeInsert q record w") auto
    from beforeInsert_frame [OF b] have f: "sql_log w1 = sql_log w" "View str1 = View record"
      by simp_all
    from um f(2) have "unmatched (View str1) columnsIn \<noteq> {}" by simp
    from filtered_not_ok [OF this] have
      "\<And>c v. filteredColumnsAndValues str1 columnsIn False \<noteq> Return (c, v, None)" .
    with True b f(1) show ?thesis
      by (auto simp: InsertColumns_def split: option.splits outcome.splits prod.splits)
  qed
next
  show "sql_log (snd (snd (UpdateColumns q record columnsIn w))) = sql_log w"
  proof -
    obtain e str1 w1 where b: "beforeUpdate q record w = (e, str1, w1)"
      by (cases "beforeUpdate q record w") auto
    from beforeUpdate_frame [OF b] have f: "sql_log w1 = sql_log w" "View str1 = View record"
      by simp_all
    from um f(2) have "unmatched (View str1) columnsIn \<noteq> {}" by simp
    from filtered_not_ok [OF this] have
      "\<And>c v. filteredColumnsAndValues str1 columnsIn True \<noteq> Return (c, v, None)" .
    with b f(1) show ?thesis
      by (auto simp: UpdateColumns_def split: option.splits outcome.splits prod.splits)
  qed
next
  assume a: "isRecord record \<and> beforeInsert q record w = (None, record1, w1)
          \<and> length (Values record1) = length (Columns (View record))"
  then have b: "beforeInsert q record w = (None, record1, w1)" by simp
  from beforeInsert_frame [OF b] have v: "View record1 = View record" by simp
  from um v have um1: "unmatched (View record1) columnsIn \<noteq> {}" by simp
  from a v have len: "length (Values record1) = length (Columns (View record1))" by simp
  from filtered_unexpected [OF um1 len, of False] obtain names vals where
    "filteredColumnsAndValues record1 columnsIn False = Return (names, vals, Some (UnexpectedColumns names))"
    "set names = unmatched (View record1) columnsIn"
    by auto
  with a v show "\<exists>names. InsertColumns q record columnsIn w
                   = (Return (Some (UnexpectedColumns names)), record1, w1)
                 \<and> set names = unmatched (View record) columnsIn"
    by (auto simp: InsertColumns_def)
next
  assume a: "beforeUpdate q record w = (None, record2, w2)
          \<and> length (Values record2) = length (Columns (View record))
          \<and> Columns (View record) ! pkIndex (View record) \<notin> requested (View record) columnsIn"
  then have b: "beforeUpdate q record w = (None, record2, w2)" by simp
  from beforeUpdate_frame [OF b] have v: "View record2 = View record" by simp
  from um v have um1: "unmatched (View record2) columnsIn \<noteq> {}" by simp
  from a v have len: "length (Values record2) = length (Columns (View record2))" by simp
  from a v have nopk: "True \<longrightarrow> Columns (View record2) ! pkIndex (View record2) \<notin> requested (View record2) columnsIn"
    by simp
  from filtered_unexpected [OF um1 len nopk] obtain names vals where
    "filteredColumnsAndValues record2 columnsIn True = Return (names, vals, Some (UnexpectedColumns names))"
    "set names = unmatched (View record2) columnsIn"
    by auto
  with a v show "\<exists>names. UpdateColumns q record columnsIn w
                   = (Return (Some (UnexpectedColumns names)), record2, w2)
                 \<and> set names = unmatched (View record) columnsIn"
    by (auto simp: UpdateColumns_def)
qed

text \<open>
  The sentence of the specification fails in update mode when the primary-key column is requested too (the
  filter returns at the primary-key column and names no unmatched column), and
  \<open>UpdateColumns\<close> on a record without primary key returns \<open>ErrNoPK\<close> before it filters.
\<close>

theorem unmatched_columns_counterexample:
  "unmatched (View alice) [''id'', ''bogus''] = {''bogus''}
   \<and> filteredColumnsAndValues alice [''id'', ''bogus''] True
       = Return ([], [], Some (WillNotUpdatePK ''id''))
   \<and> UpdateColumns (stub_querier postgresql (affected 1) no_rows (Inr None)) alice [''id'', ''bogus''] w0
       = (Return (Some (WillNotUpdatePK ''id'')), alice, w0)
   \<and> unmatched (View bob) [''bogus''] = {''bogus''}
   \<and> UpdateColumns (stub_querier postgresql (affected 1) no_rows (Inr None)) bob [''bogus''] w0
       = (Return (Some ErrNoPK), bob, w0)"
  by (simp add: unmatched_def requested_def UpdateColumns_def beforeUpdate_def HasPK_def PKValue_def
      filter_defs fixture_defs)

theorem unmatched_columns_rejected_witness:
  "unmatched (View alice) [''bogus'', ''Name'', ''nope''] = {''bogus'', ''nope''}
   \<and> (\<exists>names. InsertColumns (stub_querier postgresql (affected 1) no_rows (Inr None)) alice
                 [''bogus'', ''Name'', ''nope''] w0
               = (Return (Some (UnexpectedColumns names)), alice, w0)
             \<and> set names = {''bogus'', ''nope''})
   \<and> (\<exists>names. UpdateColumns (stub_querier postgresql (affected 1) no_rows (Inr None)) alice
                 [''bogus'', ''Name'', ''nope''] w0
               = (Return (Some (UnexpectedColumns names)), alice, w0)
             \<and> set names = {''bogus'', ''nope''})"
proof -
  let ?q = "stub_querier postgresql (affected 1) no_rows (Inr None)"
  let ?cs = "[''bogus'', ''Name'', ''nope'']"
  have u: "unmatched (View alice) ?cs = {''bogus'', ''nope''}"
    by (auto simp: unmatched_def requested_def filter_defs fixture_defs)
  then have um: "unmatched (View alice) ?cs \<noteq> {}" by simp
  have h1: "isRecord alice \<and> beforeInsert ?q alice w0 = (None, alice, w0)
          \<and> length (Values alice) = length (Columns (View alice))"
    by (simp add: isRecord_def beforeInsert_def fixture_defs)
  have h2: "beforeUpdate ?q alice w0 = (None, alice, w0)
          \<and> length (Values alice) = length (Columns (View alice))
          \<and> Columns (View alice) ! pkIndex (View alice) \<notin> requested (View alice) ?cs"
    by (simp add: beforeUpdate_def HasPK_def PKValue_def requested_def filter_defs fixture_defs)
  from unmatched_columns_rejected [OF um, of True ?q w0 alice w0 alice w0] h1 h2 u
  show ?thesis by simp
qed

section \<open>Operations that need a primary key\<close>

lemma afterFind_frame:
  "afterFind str w = (e, str1, w1) \<Longrightarrow> sql_log w1 = sql_log w \<and> View str1 = View str"
  by (auto simp: afterFind_def call_hook_def split: option.splits prod.splits)

lemma SelectOneTo_log:
  "sql_log (snd (snd (SelectOneTo q str tail args w)))
     = sql_log w @ [QueryRowCall (Expand q (selectQuery q (View str) tail True) (ToCol (View str))) args]"
proof -
  let ?query = "Expand q (selectQuery q (View str) tail True) (ToCol (View str))"
  let ?w' = "w\<lparr>sql_log := sql_log w @ [QueryRowCall ?query args]\<rparr>"
  show ?thesis
  proof (cases "Row_Scan (dbtx_QueryRow q (sql_log w) ?query args) (Pointers str)")
    case (Inl e)
    then show ?thesis by (simp add: SelectOneTo_def QueryRow_def Let_def)
  next
    case (Inr vs)
    obtain e str1 w1 where a: "afterFind (str\<lparr>Values := vs\<rparr>) ?w' = (e, str1, w1)"
      by (cases "afterFind (str\<lparr>Values := vs\<rparr>) ?w'") auto
    from afterFind_frame [OF a] a Inr show ?thesis
      by (simp add: SelectOneTo_def QueryRow_def Let_def)
  qed
qed

lemma SelectOneTo_no_rows:
  "dbtx_QueryRow q (sql_log w) (Expand q (selectQuery q (View str) tail True) (ToCol (View str))) args = Inr None
   \<Longrightarrow> SelectOneTo q str tail args w
     = (Some ErrNoRows, str,
        w\<lparr>sql_log := sql_log w @ [QueryRowCall (Expand q (selectQuery q (View str) tail True) (ToCol (View str))) args]\<rparr>)"
  by (simp add: SelectOneTo_def QueryRow_def Let_def Row_Scan_def)

lemma Reload_eq:
  "pkIndex (View record) < length (Columns (View record)) \<Longrightarrow>
   Reload q record w = (case SelectOneTo q record (reload_tail q record) (reload_args q record) w of
       (err, record', w') \<Rightarrow> (Return err, record', w'))"
  by (simp add: Reload_def FindByPrimaryKeyTo_def FindOneTo_def findTail_def reload_tail_def
       reload_args_def Let_def split: prod.splits)

text \<open>
  C3, as amended. For a record whose primary key is unset, \<open>Update\<close>, \<open>UpdateColumns\<close> and
  \<open>Delete\<close> return \<open>ErrNoPK\<close> and leave the record and the world as they were: no statement
  is sent and no hook is invoked. \<open>Reload\<close> has no such check: it sends one single-row
  SELECT by the record's (zero) key value and returns the outcome of that lookup, which is
  \<open>ErrNoRows\<close> when the connection finds no row.
\<close>

theorem missing_key_rejected:
  assumes nopk: "\<not> HasPK record"
  shows "Update q record w = (Return (Some ErrNoPK), record, w)
       \<and> UpdateColumns q record columns w = (Return (Some ErrNoPK), record, w)
       \<and> Delete q record w = (Return (Some ErrNoPK), w)
       \<and> (pkIndex (View record) < length (Columns (View record)) \<longrightarrow>
            (\<exists>query. sql_log (snd (snd (Reload q record w)))
                      = sql_log w @ [QueryRowCall query (reload_args q record)]
                \<and> (dbtx_QueryRow q (sql_log w) query (reload_args q record) = Inr None \<longrightarrow>
                     Reload q record w
                       = (Return (Some ErrNoRows), record,
                          w\<lparr>sql_log := sql_log w @ [QueryRowCall query (reload_args q record)]\<rparr>))))"
proof (intro conjI impI)
  show "Update q record w = (Return (Some ErrNoPK), record, w)"
    using nopk by (simp add: Update_def beforeUpdate_def)
  show "UpdateColumns q record columns w = (Return (Some ErrNoPK), record, w)"
    using nopk by (simp add: UpdateColumns_def beforeUpdate_def)
  show "Delete q record w = (Return (Some ErrNoPK), w)"
    using nopk by (simp add: Delete_def)
next
  assume pk: "pkIndex (View record) < length (Columns (View record))"
  let ?query = "Expand q (selectQuery q (View record) (reload_tail q record) True) (ToCol (View record))"
  have 1: "sql_log (snd (snd (Reload q record w))) = sql_log w @ [QueryRowCall ?query (reload_args q record)]"
    using SelectOneTo_log [of q "record" "reload_tail q record" "reload_args q record" w]
    by (auto simp: Reload_eq [OF pk] split: prod.splits)
  have 2: "dbtx_QueryRow q (sql_log w) ?query (reload_args q record) = Inr None \<longrightarrow>
                     Reload q record w
                       = (Return (Some ErrNoRows), record,
                          w\<lparr>sql_log := sql_log w @ [QueryRowCall ?query (reload_args q record)]\<rparr>)"
    by (simp add: Reload_eq [OF pk] SelectOneTo_no_rows)
  from 1 2 show "\<exists>query. sql_log (snd (snd (Reload q record w)))
                      = sql_log w @ [QueryRowCall query (reload_args q record)]
                \<and> (dbtx_QueryRow q (sql_log w) query (reload_args q record) = Inr None \<longrightarrow>
                     Reload q record w
                       = (Return (Some ErrNoRows), record,
                          w\<lparr>sql_log := sql_log w @ [QueryRowCall query (reload_args q record)]\<rparr>))"
    by blast
qed

lemmas select_defs = Reload_def FindByPrimaryKeyTo_def FindOneTo_def findTail_def SelectOneTo_def
  selectQuery_def QueryRow_def Row_Scan_def scan_dest_def Pointers_def afterFind_def PKValue_def
  pkIndex_def

text \<open>
  The sentence of the specification fails for \<open>Reload\<close>: on a record without primary key it queries the
  connection and reports \<open>ErrNoRows\<close>, not \<open>ErrNoPK\<close>.
\<close>

theorem missing_key_counterexample:
  "\<not> HasPK bob
   \<and> Reload (stub_querier mssql (affected 1) no_rows (Inr None)) bob w0
     = (Return (Some ErrNoRows), bob,
        \<lparr>sql_log = [QueryRowCall
           ''SELECT TOP 1 [people].[id], [people].[name], [people].[age] FROM [people] WHERE [people].[id] = ?''
           [IntV 0]],
         hook_log = []\<rparr>)"
  by (simp add: HasPK_def select_defs fixture_defs)

theorem missing_key_rejected_witness:
  "\<not> HasPK bob
   \<and> Update (stub_querier mssql (affected 1) no_rows (Inr None)) bob w0 = (Return (Some ErrNoPK), bob, w0)
   \<and> UpdateColumns (stub_querier mssql (affected 1) no_rows (Inr None)) bob [''name''] w0
       = (Return (Some ErrNoPK), bob, w0)
   \<and> Delete (stub_querier mssql (affected 1) no_rows (Inr None)) bob w0 = (Return (Some ErrNoPK), w0)
   \<and> (\<exists>query. Reload (stub_querier mssql (affected 1) no_rows (Inr None)) bob w0
         = (Return (Some ErrNoRows), bob, w0\<lparr>sql_log := sql_log w0 @ [QueryRowCall query [IntV 0]]\<rparr>))"
proof -
  let ?q = "stub_querier mssql (affected 1) no_rows (Inr None)"
  have h: "\<not> HasPK bob" by (simp add: HasPK_def PKValue_def pkIndex_def fixture_defs)
  have pk: "pkIndex (View bob) < length (Columns (View bob))" by (simp add: pkIndex_def fixture_defs)
  have nr: "\<And>query. dbtx_QueryRow ?q (sql_log w0) query (reload_args ?q bob) = Inr None"
    by (simp add: fixture_defs)
  have ra: "reload_args ?q bob = [IntV 0]"
    by (simp add: reload_args_def PKValue_def pkIndex_def fixture_defs)
  from missing_key_rejected [OF h, of ?q w0 "[''name'']"] pk nr h show ?thesis
    unfolding ra by auto
qed

section \<open>Row counts and Save\<close>

text \<open>
  C5. \<open>Save\<close> is the composition the specification describes: with a primary key set it
  attempts \<open>Update\<close> and returns its result (a panic included) unless that result is the
  not-found sentinel, in which case it goes on to \<open>Insert\<close>, on the record and the world
  as \<open>Update\<close> left them; with the primary key unset it goes straight to \<open>Insert\<close>.
\<close>

theorem Save_composition: "Save q record w = Save_spec q record w"
  by (auto simp: Save_def Save_spec_def split: prod.splits outcome.splits)

text \<open>
  C4. When the UPDATE by primary key (\<open>Querier.update\<close>, which \<open>Update\<close> and
  \<open>UpdateColumns\<close> run) or the DELETE by primary key has been executed and the connection
  reports \<open>ra\<close> affected rows: zero rows is the not-found sentinel \<open>ErrNoRows\<close>, more than
  one row is a panic that carries the count, and exactly one row is success.
\<close>

theorem affected_rows_outcome:
  "(length columns \<le> length (Placeholders q 1 (length columns))
      \<and> pkIndex (View record) < length (Columns (View record))
      \<and> dbtx_Exec q (sql_log w) (Expand q (update_query q record columns) (ToCol (View record)))
            (values @ [PKValue record]) = Inr res
      \<and> res_RowsAffected res = Inr ra
    \<longrightarrow> (ra = 0 \<longrightarrow> fst (q_update q record columns values w) = Return (Some ErrNoRows))
      \<and> (ra > 1 \<longrightarrow> fst (q_update q record columns values w) = Panic (RowsByUpdate ra))
      \<and> (ra = 1 \<longrightarrow> fst (q_update q record columns values w) = Return None))
   \<and> (HasPK record
      \<and> pkIndex (View record) < length (Columns (View record))
      \<and> dbtx_Exec q (sql_log w) (Expand q (delete_query q record) (ToCol (View record)))
            [PKValue record] = Inr res'
      \<and> res_RowsAffected res' = Inr ra'
    \<longrightarrow> (ra' = 0 \<longrightarrow> fst (Delete q record w) = Return (Some ErrNoRows))
      \<and> (ra' > 1 \<longrightarrow> fst (Delete q record w) = Panic (RowsByDelete ra'))
      \<and> (ra' = 1 \<longrightarrow> fst (Delete q record w) = Return None))"
  by (simp add: q_update_def Delete_def Exec_def Let_def)

theorem affected_rows_outcome_witness:
  "fst (q_update (stub_querier mssql (affected 0) no_rows (Inr None)) alice [''name''] [StrV ''Al''] w0)
     = Return (Some ErrNoRows)
   \<and> fst (Delete (stub_querier mssql (affected 0) no_rows (Inr None)) alice w0) = Return (Some ErrNoRows)
   \<and> fst (q_update (stub_querier mssql (affected 3) no_rows (Inr None)) alice [''name''] [StrV ''Al''] w0)
     = Panic (RowsByUpdate 3)
   \<and> fst (Delete (stub_querier mssql (affected 3) no_rows (Inr None)) alice w0) = Panic (RowsByDelete 3)
   \<and> fst (q_update (stub_querier mssql (affected 1) no_rows (Inr None)) alice [''name''] [StrV ''Al''] w0)
     = Return None
   \<and> fst (Delete (stub_querier mssql (affected 1) no_rows (Inr None)) alice w0) = Return None"
proof -
  let ?q = "\<lambda>n. stub_querier mssql (affected n) no_rows (Inr None)"
  let ?res = "\<lambda>n. \<lparr>res_LastInsertId = Inr 0, res_RowsAffected = Inr n\<rparr>"
  have h: "\<And>n. length [''name''] \<le> length (Placeholders (?q n) 1 (length [''name'']))
      \<and> pkIndex (View alice) < length (Columns (View alice))
      \<and> dbtx_Exec (?q n) (sql_log w0) (Expand (?q n) (update_query (?q n) alice [''name'']) (ToCol (View alice)))
            ([StrV ''Al''] @ [PKValue alice]) = Inr (?res n)
      \<and> res_RowsAffected (?res n) = Inr n"
    by (simp add: pkIndex_def fixture_defs)
  have h': "\<And>n. HasPK alice
      \<and> pkIndex (View alice) < length (Columns (View alice))
      \<and> dbtx_Exec (?q n) (sql_log w0) (Expand (?q n) (delete_query (?q n) alice) (ToCol (View alice)))
            [PKValue alice] = Inr (?res n)
      \<and> res_RowsAffected (?res n) = Inr n"
    by (simp add: HasPK_def PKValue_def pkIndex_def fixture_defs)
  from affected_rows_outcome [of "[''name'']" "?q 0" alice w0 "[StrV ''Al'']" "?res 0" 0 "?res 0" 0]
       affected_rows_outcome [of "[''name'']" "?q 3" alice w0 "[StrV ''Al'']" "?res 3" 3 "?res 3" 3]
       affected_rows_outcome [of "[''name'']" "?q 1" alice w0 "[StrV ''Al'']" "?res 1" 1 "?res 1" 1]
       h [of 0] h [of 3] h [of 1] h' [of 0] h' [of 3] h' [of 1]
  show ?thesis by simp
qed

section \<open>Inserts\<close>



lemmas insert_defs = Insert_def q_insert_def insert_query_def beforeInsert_def call_hook_def
  isRecord_def HasPK_def PKValue_def SetPK_def pkIndex_def Exec_def QueryRow_def Row_Scan_def
  scan_dest_def cut_def



text \<open>
  C1, as amended. For a record whose primary key is set once the pre-insert hook has
  succeeded, \<open>Insert\<close> sends all columns and values, the primary key included, and on
  success stores in the primary-key slot the key the connection reports: the last-inserted
  id of the driver, or the value of the row returned for RETURNING or OUTPUT INSERTED. The
  slot then holds the reported key, and the record is unchanged exactly when the reported
  key is the key that was set.
\<close>

theorem Insert_reported_key:
  assumes hook: "beforeInsert q str w = (None, str1, w1)"
    and rec: "isRecord str1"
    and haspk: "HasPK str1"
    and wf: "pkIndex (View str1) < length (Columns (View str1))"
        "pkIndex (View str1) < length (Values str1)"
  shows "(LastInsertIdMethod q = LastInsertId
            \<and> dbtx_Exec q (sql_log w1) (Expand q (insert_query q str1 (Columns (View str1))) (ToCol (View str1)))
                 (Values str1) = Inr res
            \<and> res_LastInsertId res = Inr k
          \<longrightarrow> Insert q str w
               = (Return None, SetPK str1 (IntV k),
                  w1\<lparr>sql_log := sql_log w1 @
                     [ExecCall (Expand q (insert_query q str1 (Columns (View str1))) (ToCol (View str1)))
                        (Values str1)]\<rparr>))
       \<and> ((LastInsertIdMethod q = Returning \<or> LastInsertIdMethod q = OutputInserted)
            \<and> dbtx_QueryRow q (sql_log w1) (insert_query q str1 (Columns (View str1))) (Values str1)
                 = Inr (Some [v])
          \<longrightarrow> Insert q str w
               = (Return None, SetPK str1 v,
                  w1\<lparr>sql_log := sql_log w1 @
                     [QueryRowCall (insert_query q str1 (Columns (View str1))) (Values str1)]\<rparr>))
       \<and> PKValue (SetPK str1 v') = v'
       \<and> (SetPK str1 v' = str1 \<longleftrightarrow> v' = PKValue str1)"
proof (intro conjI impI)
  assume a: "LastInsertIdMethod q = LastInsertId
            \<and> dbtx_Exec q (sql_log w1) (Expand q (insert_query q str1 (Columns (View str1))) (ToCol (View str1)))
                 (Values str1) = Inr res
            \<and> res_LastInsertId res = Inr k"
  with hook rec haspk show "Insert q str w
               = (Return None, SetPK str1 (IntV k),
                  w1\<lparr>sql_log := sql_log w1 @
                     [ExecCall (Expand q (insert_query q str1 (Columns (View str1))) (ToCol (View str1)))
                        (Values str1)]\<rparr>)"
    by (simp add: Insert_def q_insert_def Exec_def Let_def)
next
  assume a: "(LastInsertIdMethod q = Returning \<or> LastInsertIdMethod q = OutputInserted)
            \<and> dbtx_QueryRow q (sql_log w1) (insert_query q str1 (Columns (View str1))) (Values str1)
                 = Inr (Some [v])"
  with hook rec haspk wf(1) show "Insert q str w
               = (Return None, SetPK str1 v,
                  w1\<lparr>sql_log := sql_log w1 @
                     [QueryRowCall (insert_query q str1 (Columns (View str1))) (Values str1)]\<rparr>)"
    by (auto simp: Insert_def q_insert_def QueryRow_def Row_Scan_def scan_dest_def Let_def)
next
  show "PKValue (SetPK str1 v') = v'"
    using wf(2) by (simp add: SetPK_def PKValue_def)
next
  show "SetPK str1 v' = str1 \<longleftrightarrow> v' = PKValue str1"
  proof
    assume "SetPK str1 v' = str1"
    then have "PKValue (SetPK str1 v') = PKValue str1" by simp
    then show "v' = PKValue str1" using wf(2) by (simp add: SetPK_def PKValue_def)
  next
    assume "v' = PKValue str1"
    then show "SetPK str1 v' = str1" by (simp add: SetPK_def PKValue_def)
  qed
qed

text \<open>
  The sentence of the specification fails under each of the three variants: the slot takes the reported
  key.
\<close>

theorem Insert_reported_key_counterexample:
  "HasPK alice
   \<and> fst (snd (Insert (stub_querier lastid_dialect (inserted 99) no_rows (Inr None)) alice w0))
       = \<lparr>View = people, Values = [IntV 99, StrV ''Alice'', IntV 30]\<rparr>
   \<and> fst (snd (Insert (stub_querier postgresql (inserted 0) no_rows (Inr (Some [IntV 99]))) alice w0))
       = \<lparr>View = people, Values = [IntV 99, StrV ''Alice'', IntV 30]\<rparr>
   \<and> fst (snd (Insert (stub_querier mssql (inserted 0) no_rows (Inr (Some [IntV 99]))) alice w0))
       = \<lparr>View = people, Values = [IntV 99, StrV ''Alice'', IntV 30]\<rparr>
   \<and> PKValue alice = IntV 7"
  by (simp add: insert_defs fixture_defs Let_def)

theorem Insert_reported_key_witness:
  "HasPK alice
   \<and> Insert (stub_querier lastid_dialect (inserted 7) no_rows (Inr None)) alice w0
       = (Return None, alice,
          w0\<lparr>sql_log := [ExecCall (insert_query (stub_querier lastid_dialect (inserted 7) no_rows (Inr None))
                                     alice [''id'', ''name'', ''age''])
                            [IntV 7, StrV ''Alice'', IntV 30]]\<rparr>)
   \<and> Insert (stub_querier mssql (inserted 0) no_rows (Inr (Some [IntV 7]))) alice w0
       = (Return None, alice,
          w0\<lparr>sql_log := [QueryRowCall
              ''INSERT INTO [people] ([id], [name], [age]) OUTPUT INSERTED.[id] VALUES (?, ?, ?)''
              [IntV 7, StrV ''Alice'', IntV 30]]\<rparr>)"
proof -
  let ?q1 = "stub_querier lastid_dialect (inserted 7) no_rows (Inr None)"
  let ?q2 = "stub_querier mssql (inserted 0) no_rows (Inr (Some [IntV 7]))"
  let ?res = "\<lparr>res_LastInsertId = Inr 7, res_RowsAffected = Inr 1\<rparr>"
  have hook1: "beforeInsert ?q1 alice w0 = (None, alice, w0)"
    and hook2: "beforeInsert ?q2 alice w0 = (None, alice, w0)"
    by (simp_all add: beforeInsert_def alice_def people_def)
  have rec: "isRecord alice" by (simp add: isRecord_def alice_def people_def)
  have haspk: "HasPK alice" by (simp add: HasPK_def PKValue_def pkIndex_def alice_def people_def)
  have wf: "pkIndex (View alice) < length (Columns (View alice))"
      "pkIndex (View alice) < length (Values alice)"
    by (simp_all add: pkIndex_def alice_def people_def)
  have pkv: "PKValue alice = IntV 7" by (simp add: PKValue_def pkIndex_def alice_def people_def)
  have a1: "LastInsertIdMethod ?q1 = LastInsertId
            \<and> dbtx_Exec ?q1 (sql_log w0) (Expand ?q1 (insert_query ?q1 alice (Columns (View alice))) (ToCol (View alice)))
                 (Values alice) = Inr ?res
            \<and> res_LastInsertId ?res = Inr 7"
    by (simp add: fixture_defs)
  have a2: "(LastInsertIdMethod ?q2 = Returning \<or> LastInsertIdMethod ?q2 = OutputInserted)
            \<and> dbtx_QueryRow ?q2 (sql_log w0) (insert_query ?q2 alice (Columns (View alice))) (Values alice)
                 = Inr (Some [IntV 7])"
    by (simp add: fixture_defs)
  have same: "SetPK alice (IntV 7) = alice"
    using Insert_reported_key [OF hook1 rec haspk wf, of ?res 7 "IntV 7" "IntV 7"] pkv by simp
  have i1: "Insert ?q1 alice w0 = (Return None, SetPK alice (IntV 7),
                  w0\<lparr>sql_log := sql_log w0 @
                     [ExecCall (Expand ?q1 (insert_query ?q1 alice (Columns (View alice))) (ToCol (View alice)))
                        (Values alice)]\<rparr>)"
    using Insert_reported_key [OF hook1 rec haspk wf, of ?res 7 "IntV 7" "IntV 7"] a1 by blast
  have i2: "Insert ?q2 alice w0 = (Return None, SetPK alice (IntV 7),
                  w0\<lparr>sql_log := sql_log w0 @
                     [QueryRowCall (insert_query ?q2 alice (Columns (View alice))) (Values alice)]\<rparr>)"
    using Insert_reported_key [OF hook2 rec haspk wf, of ?res 7 "IntV 7" "IntV 7"] a2 by blast
  have q2: "insert_query ?q2 alice (Columns (View alice))
      = ''INSERT INTO [people] ([id], [name], [age]) OUTPUT INSERTED.[id] VALUES (?, ?, ?)''"
    by (simp add: insert_query_def isRecord_def pkIndex_def fixture_defs)
  have e1: "Expand ?q1 (insert_query ?q1 alice (Columns (View alice))) (ToCol (View alice))
      = insert_query ?q1 alice [''id'', ''name'', ''age'']"
    by (simp add: fixture_defs)
  have vs: "Values alice = [IntV 7, StrV ''Alice'', IntV 30]" "sql_log w0 = []"
    by (simp_all add: alice_def w0_def)
  from i1 i2 haspk show ?thesis
    unfolding same q2 e1 vs by simp
qed

section \<open>Selects and finders\<close>

lemma NextRow_valid:
  assumes "pending rows = r # rest" "valid_row view r"
  shows "\<exists>w'. NextRow q (NewStruct view) rows w = (None, materialized view r, rows\<lparr>pending := rest\<rparr>, w')"
proof (cases "AfterFind view")
  case None
  with assms show ?thesis
    by (simp add: NextRow_def rows_Next_def scan_dest_def Pointers_def NewStruct_def valid_row_def
      materialized_def afterFind_def)
next
  case (Some af)
  with assms show ?thesis
    by (cases "af r")
       (simp add: NextRow_def rows_Next_def scan_dest_def Pointers_def NewStruct_def valid_row_def
          materialized_def afterFind_def call_hook_def)
qed

lemma NextRow_end:
  assumes "pending rows = []"
  shows "NextRow q str rows w = ((case rows_Err rows of None \<Rightarrow> Some ErrNoRows | Some e \<Rightarrow> Some e), str, rows, w)"
  using assms by (simp add: NextRow_def rows_Next_def split: option.splits)

lemma NextRow_Close:
  "NextRow q str rows w = (e, str', rows', w') \<Longrightarrow> rows_Close rows' = rows_Close rows \<and> sql_log w' = sql_log w"
  by (auto simp: NextRow_def rows_Next_def afterFind_def call_hook_def
      split: list.splits option.splits sum.splits prod.splits)

lemma SelectAllFrom_loop_valid:
  "pending rows = rs \<Longrightarrow> \<forall>r \<in> set rs. valid_row view r \<Longrightarrow>
   \<exists>w'. SelectAllFrom_loop q view rows structs w
     = (structs @ map (materialized view) rs,
        (case rows_Err rows of None \<Rightarrow> None | Some e \<Rightarrow> if e = ErrNoRows then None else Some e),
        rows\<lparr>pending := []\<rparr>, w')"
proof (induction rs arbitrary: rows structs w)
  case Nil
  then have "rows\<lparr>pending := []\<rparr> = rows" by simp
  with Nil show ?case
    by (subst SelectAllFrom_loop.simps) (simp add: NextRow_end split: option.splits)
next
  case (Cons r rest)
  from Cons.prems NextRow_valid [of rows r rest view q w] obtain w1 where
    n: "NextRow q (NewStruct view) rows w = (None, materialized view r, rows\<lparr>pending := rest\<rparr>, w1)"
    by auto
  have p: "pending (rows\<lparr>pending := rest\<rparr>) = rest" by simp
  from Cons.prems have v: "\<forall>r \<in> set rest. valid_row view r" by simp
  from Cons.IH [OF p v, of "structs @ [materialized view r]" w1] obtain w' where
    "SelectAllFrom_loop q view (rows\<lparr>pending := rest\<rparr>) (structs @ [materialized view r]) w1
     = ((structs @ [materialized view r]) @ map (materialized view) rest,
        (case rows_Err (rows\<lparr>pending := rest\<rparr>) of None \<Rightarrow> None | Some e \<Rightarrow> if e = ErrNoRows then None else Some e),
        rows\<lparr>pending := rest\<rparr>\<lparr>pending := []\<rparr>, w')"
    by blast
  with n show ?case
    by (subst SelectAllFrom_loop.simps) simp
qed

lemma SelectAllFrom_loop_never:
  "SelectAllFrom_loop q view rows structs w = (structs', err, rows', w') \<Longrightarrow>
   err \<noteq> Some ErrNoRows \<and> rows_Close rows' = rows_Close rows \<and> sql_log w' = sql_log w"
proof (induction q view rows structs w rule: SelectAllFrom_loop.induct)
  case (1 q view rows structs w)
  obtain e str rows1 w1 where n: "NextRow q (NewStruct view) rows w = (e, str, rows1, w1)"
    by (cases "NextRow q (NewStruct view) rows w") auto
  show ?case
  proof (cases e)
    case None
    from "1.prems" n None have
      "SelectAllFrom_loop q view rows1 (structs @ [str]) w1 = (structs', err, rows', w')"
      by (subst (asm) SelectAllFrom_loop.simps) simp
    from "1.IH" [OF n [symmetric] None refl refl this] NextRow_Close [OF n] show ?thesis by simp
  next
    case (Some e')
    from "1.prems" n Some NextRow_Close [OF n] show ?thesis
      by (subst (asm) SelectAllFrom_loop.simps) (auto split: if_splits)
  qed
qed

text \<open>
  C8. When the query has succeeded and the cursor yields \<open>k\<close> valid rows and then fails
  with an error (other than the sentinel \<open>ErrNoRows\<close> itself, which \<open>database/sql\<close> never
  reports from a cursor), \<open>SelectAllFrom\<close> returns exactly the \<open>k\<close> records materialized
  from those rows, in order, together with that error. When the cursor ends without error,
  it returns the records with the result of closing the cursor, so an empty result is a
  nil-error outcome. And it returns \<open>ErrNoRows\<close> in no case, unless the query call or the
  closing of the cursor reports that very error.
\<close>

theorem SelectAllFrom_partial_results:
  "(dbtx_Query q (sql_log w) (Expand q (selectQuery q view tail False) (ToCol view)) args = Inr rows
      \<and> (\<forall>r \<in> set (pending rows). valid_row view r)
      \<and> rows_Err rows = Some e \<and> e \<noteq> ErrNoRows
    \<longrightarrow> fst (SelectAllFrom q view tail args w) = map (materialized view) (pending rows)
      \<and> fst (snd (SelectAllFrom q view tail args w)) = Some e)
   \<and> (dbtx_Query q (sql_log w) (Expand q (selectQuery q view tail False) (ToCol view)) args = Inr rows
      \<and> (\<forall>r \<in> set (pending rows). valid_row view r)
      \<and> rows_Err rows = None
    \<longrightarrow> fst (SelectAllFrom q view tail args w) = map (materialized view) (pending rows)
      \<and> fst (snd (SelectAllFrom q view tail args w)) = rows_Close rows)
   \<and> (dbtx_Query q (sql_log w) (Expand q (selectQuery q view tail False) (ToCol view)) args
         \<noteq> Inl ErrNoRows
      \<and> (\<forall>rs. dbtx_Query q (sql_log w) (Expand q (selectQuery q view tail False) (ToCol view)) args
               = Inr rs \<longrightarrow> rows_Close rs \<noteq> Some ErrNoRows)
    \<longrightarrow> fst (snd (SelectAllFrom q view tail args w)) \<noteq> Some ErrNoRows)"
proof (intro conjI impI)
  let ?query = "Expand q (selectQuery q view tail False) (ToCol view)"
  let ?w' = "w\<lparr>sql_log := sql_log w @ [QueryCall ?query args]\<rparr>"
  {
    assume a: "dbtx_Query q (sql_log w) ?query args = Inr rows
      \<and> (\<forall>r \<in> set (pending rows). valid_row view r)
      \<and> rows_Err rows = Some e \<and> e \<noteq> ErrNoRows"
    then have v: "\<forall>r \<in> set (pending rows). valid_row view r" by simp
    from SelectAllFrom_loop_valid [OF refl v, of q "[]" ?w'] obtain w'' where
      "SelectAllFrom_loop q view rows [] ?w'
         = ([] @ map (materialized view) (pending rows),
            (case rows_Err rows of None \<Rightarrow> None | Some e \<Rightarrow> if e = ErrNoRows then None else Some e),
            rows\<lparr>pending := []\<rparr>, w'')"
      by blast
    with a have r: "SelectAllFrom q view tail args w = (map (materialized view) (pending rows), Some e, w'')"
      by (simp add: SelectAllFrom_def SelectRows_def Query_def Let_def)
    from r show "fst (SelectAllFrom q view tail args w) = map (materialized view) (pending rows)" by simp
    from r show "fst (snd (SelectAllFrom q view tail args w)) = Some e" by simp
  }
  {
    assume a: "dbtx_Query q (sql_log w) ?query args = Inr rows
      \<and> (\<forall>r \<in> set (pending rows). valid_row view r)
      \<and> rows_Err rows = None"
    then have v: "\<forall>r \<in> set (pending rows). valid_row view r" by simp
    from SelectAllFrom_loop_valid [OF refl v, of q "[]" ?w'] obtain w'' where
      "SelectAllFrom_loop q view rows [] ?w'
         = ([] @ map (materialized view) (pending rows),
            (case rows_Err rows of None \<Rightarrow> None | Some e \<Rightarrow> if e = ErrNoRows then None else Some e),
            rows\<lparr>pending := []\<rparr>, w'')"
      by blast
    with a have r: "SelectAllFrom q view tail args w
        = (map (materialized view) (pending rows), rows_Close rows, w'')"
      by (simp add: SelectAllFrom_def SelectRows_def Query_def Let_def)
    from r show "fst (SelectAllFrom q view tail args w) = map (materialized view) (pending rows)" by simp
    from r show "fst (snd (SelectAllFrom q view tail args w)) = rows_Close rows" by simp
  }
  {
    assume a: "dbtx_Query q (sql_log w) ?query args \<noteq> Inl ErrNoRows
      \<and> (\<forall>rs. dbtx_Query q (sql_log w) ?query args = Inr rs \<longrightarrow> rows_Close rs \<noteq> Some ErrNoRows)"
    show "fst (snd (SelectAllFrom q view tail args w)) \<noteq> Some ErrNoRows"
    proof (cases "dbtx_Query q (sql_log w) ?query args")
      case (Inl err)
      with a show ?thesis
        by (simp add: SelectAllFrom_def SelectRows_def Query_def Let_def)
    next
      case (Inr rs)
      obtain structs err rows' w'' where
        l: "SelectAllFrom_loop q view rs [] ?w' = (structs, err, rows', w'')"
        by (cases "SelectAllFrom_loop q view rs [] ?w'") auto
      from SelectAllFrom_loop_never [OF l] a Inr have
        "err \<noteq> Some ErrNoRows" "rows_Close rows' \<noteq> Some ErrNoRows"
        by simp_all
      with Inr l show ?thesis
        by (simp add: SelectAllFrom_def SelectRows_def Query_def Let_def)
    qed
  }
qed

theorem SelectAllFrom_partial_results_witness:
  "SelectAllFrom (stub_querier mssql (affected 0) (Inr two_rows_then_error) (Inr None)) people '''' [] w0
     = ([\<lparr>View = people, Values = [IntV 1, StrV ''Ann'', IntV 20]\<rparr>,
         \<lparr>View = people, Values = [IntV 2, StrV ''Ben'', IntV 21]\<rparr>],
        Some (Other ''connection lost''),
        snd (snd (SelectAllFrom (stub_querier mssql (affected 0) (Inr two_rows_then_error) (Inr None))
                    people '''' [] w0)))
   \<and> fst (SelectAllFrom (stub_querier mssql (affected 0) no_rows (Inr None)) people '''' [] w0) = []
   \<and> fst (snd (SelectAllFrom (stub_querier mssql (affected 0) no_rows (Inr None)) people '''' [] w0)) = None"
proof -
  let ?q = "stub_querier mssql (affected 0) (Inr two_rows_then_error) (Inr None)"
  let ?qn = "stub_querier mssql (affected 0) no_rows (Inr None)"
  let ?e = "Other ''connection lost''"
  let ?empty = "\<lparr>pending = [], rows_Err = None, rows_Close = None\<rparr>"
  have a: "dbtx_Query ?q (sql_log w0) (Expand ?q (selectQuery ?q people '''' False) (ToCol people)) []
        = Inr two_rows_then_error
      \<and> (\<forall>r \<in> set (pending two_rows_then_error). valid_row people r)
      \<and> rows_Err two_rows_then_error = Some ?e \<and> ?e \<noteq> ErrNoRows"
  proof (intro conjI)
    show "dbtx_Query ?q (sql_log w0) (Expand ?q (selectQuery ?q people '''' False) (ToCol people)) []
        = Inr two_rows_then_error"
      by (simp add: stub_querier_def)
    show "\<forall>r \<in> set (pending two_rows_then_error). valid_row people r"
      by (simp add: two_rows_then_error_def valid_row_def people_def)
    show "rows_Err two_rows_then_error = Some ?e"
      by (simp add: two_rows_then_error_def)
    show "?e \<noteq> ErrNoRows" by simp
  qed
  have b: "dbtx_Query ?qn (sql_log w0) (Expand ?qn (selectQuery ?qn people '''' False) (ToCol people)) []
        = Inr ?empty
      \<and> (\<forall>r \<in> set (pending ?empty). valid_row people r)
      \<and> rows_Err ?empty = None"
    by (simp add: stub_querier_def no_rows_def)
  have c: "dbtx_Query ?qn (sql_log w0) (Expand ?qn (selectQuery ?qn people '''' False) (ToCol people)) []
         \<noteq> Inl ErrNoRows
      \<and> (\<forall>rs. dbtx_Query ?qn (sql_log w0) (Expand ?qn (selectQuery ?qn people '''' False) (ToCol people)) []
               = Inr rs \<longrightarrow> rows_Close rs \<noteq> Some ErrNoRows)"
    by (auto simp: stub_querier_def no_rows_def)
  have m: "map (materialized people) (pending two_rows_then_error)
      = [\<lparr>View = people, Values = [IntV 1, StrV ''Ann'', IntV 20]\<rparr>,
         \<lparr>View = people, Values = [IntV 2, StrV ''Ben'', IntV 21]\<rparr>]"
    by (simp add: two_rows_then_error_def materialized_def people_def)
  from SelectAllFrom_partial_results [of ?q w0 people "''''" "[]" two_rows_then_error ?e] a m
  have 1: "fst (SelectAllFrom ?q people '''' [] w0)
      = [\<lparr>View = people, Values = [IntV 1, StrV ''Ann'', IntV 20]\<rparr>,
         \<lparr>View = people, Values = [IntV 2, StrV ''Ben'', IntV 21]\<rparr>]"
    and 2: "fst (snd (SelectAllFrom ?q people '''' [] w0)) = Some ?e"
    by simp_all
  from SelectAllFrom_partial_results [of ?qn w0 people "''''" "[]" ?empty ?e] b c
  have 3: "fst (SelectAllFrom ?qn people '''' [] w0) = []"
    and 4: "fst (snd (SelectAllFrom ?qn people '''' [] w0)) = None"
    and 5: "fst (snd (SelectAllFrom ?qn people '''' [] w0)) \<noteq> Some ErrNoRows"
    by simp_all
  from 1 2 3 4 show ?thesis
    by (cases "SelectAllFrom ?q people '''' [] w0") auto
qed

text \<open>
  C9. \<open>NextRow\<close>: if the cursor has no next row, the result is the error of the cursor when
  there is one and \<open>ErrNoRows\<close> otherwise, and nothing else changes. If there is a row with
  one column per field, the fields of the struct become the columns of the row, in order;
  then, if the struct has a post-fetch hook, the hook is invoked on these populated fields,
  and its result, failure included, is returned with the struct as the hook left it. A row
  with another number of columns is the scan error, and the hook is not invoked.
\<close>

theorem NextRow_contract:
  "(pending rows = [] \<longrightarrow>
      NextRow q str rows w
        = ((case rows_Err rows of Some err \<Rightarrow> Some err | None \<Rightarrow> Some ErrNoRows), str, rows, w))
   \<and> (pending rows = r # rest \<and> length r = length (Values str) \<and> AfterFind (View str) = None \<longrightarrow>
      NextRow q str rows w = (None, str\<lparr>Values := r\<rparr>, rows\<lparr>pending := rest\<rparr>, w))
   \<and> (pending rows = r # rest \<and> length r = length (Values str) \<and> AfterFind (View str) = Some af \<longrightarrow>
      NextRow q str rows w
        = (snd (af r), str\<lparr>Values := fst (af r)\<rparr>, rows\<lparr>pending := rest\<rparr>,
           w\<lparr>hook_log := hook_log w @ [AfterFindCall r]\<rparr>))
   \<and> (pending rows = r # rest \<and> length r \<noteq> length (Values str) \<longrightarrow>
      NextRow q str rows w
        = (Some (ScanArity (length r) (length (Values str))), str, rows\<lparr>pending := rest\<rparr>, w))"
proof (intro conjI impI)
  assume "pending rows = []"
  then show "NextRow q str rows w
        = ((case rows_Err rows of Some err \<Rightarrow> Some err | None \<Rightarrow> Some ErrNoRows), str, rows, w)"
    by (simp add: NextRow_def rows_Next_def split: option.splits)
next
  assume "pending rows = r # rest \<and> length r = length (Values str) \<and> AfterFind (View str) = None"
  then show "NextRow q str rows w = (None, str\<lparr>Values := r\<rparr>, rows\<lparr>pending := rest\<rparr>, w)"
    by (simp add: NextRow_def rows_Next_def scan_dest_def Pointers_def afterFind_def)
next
  assume "pending rows = r # rest \<and> length r = length (Values str) \<and> AfterFind (View str) = Some af"
  then show "NextRow q str rows w
        = (snd (af r), str\<lparr>Values := fst (af r)\<rparr>, rows\<lparr>pending := rest\<rparr>,
           w\<lparr>hook_log := hook_log w @ [AfterFindCall r]\<rparr>)"
    by (cases "af r")
       (simp add: NextRow_def rows_Next_def scan_dest_def Pointers_def afterFind_def call_hook_def)
next
  assume "pending rows = r # rest \<and> length r \<noteq> length (Values str)"
  then show "NextRow q str rows w
        = (Some (ScanArity (length r) (length (Values str))), str, rows\<lparr>pending := rest\<rparr>, w)"
    by (simp add: NextRow_def rows_Next_def scan_dest_def Pointers_def)
qed

theorem NextRow_contract_witness:
  "NextRow (stub_querier mssql (affected 0) no_rows (Inr None)) (NewStruct people)
       \<lparr>pending = [], rows_Err = None, rows_Close = None\<rparr> w0
     = (Some ErrNoRows, NewStruct people, \<lparr>pending = [], rows_Err = None, rows_Close = None\<rparr>, w0)
   \<and> NextRow (stub_querier mssql (affected 0) no_rows (Inr None)) (NewStruct people)
       \<lparr>pending = [], rows_Err = Some (Other ''connection lost''), rows_Close = None\<rparr> w0
     = (Some (Other ''connection lost''), NewStruct people,
        \<lparr>pending = [], rows_Err = Some (Other ''connection lost''), rows_Close = None\<rparr>, w0)
   \<and> NextRow (stub_querier mssql (affected 0) no_rows (Inr None)) (NewStruct people)
       two_rows_then_error w0
     = (None, \<lparr>View = people, Values = [IntV 1, StrV ''Ann'', IntV 20]\<rparr>,
        two_rows_then_error\<lparr>pending := [[IntV 2, StrV ''Ben'', IntV 21]]\<rparr>, w0)
   \<and> NextRow (stub_querier mssql (affected 0) no_rows (Inr None)) (NewStruct refused)
       two_rows_then_error w0
     = (Some (Other ''refused''), \<lparr>View = refused, Values = [IntV 1, StrV ''Ann'', IntV 18]\<rparr>,
        two_rows_then_error\<lparr>pending := [[IntV 2, StrV ''Ben'', IntV 21]]\<rparr>,
        w0\<lparr>hook_log := [AfterFindCall [IntV 1, StrV ''Ann'', IntV 20]]\<rparr>)
   \<and> NextRow (stub_querier mssql (affected 0) no_rows (Inr None)) (NewStruct people)
       \<lparr>pending = [[IntV 1]], rows_Err = None, rows_Close = None\<rparr> w0
     = (Some (ScanArity 1 3), NewStruct people, \<lparr>pending = [], rows_Err = None, rows_Close = None\<rparr>, w0)"
proof -
  let ?q = "stub_querier mssql (affected 0) no_rows (Inr None)"
  let ?af = "\<lambda>vs. (vs[2 := IntV 18], Some (Other ''refused''))"
  let ?r = "[IntV 1, StrV ''Ann'', IntV 20]"
  let ?rest = "[[IntV 2, StrV ''Ben'', IntV 21]]"
  let ?none = "\<lparr>pending = [], rows_Err = None, rows_Close = None\<rparr>"
  let ?lost = "\<lparr>pending = [], rows_Err = Some (Other ''connection lost''), rows_Close = None\<rparr>"
  let ?short = "\<lparr>pending = [[IntV 1]], rows_Err = None, rows_Close = None\<rparr>"
  have p: "pending two_rows_then_error = ?r # ?rest" by (simp add: two_rows_then_error_def)
  have lp: "length ?r = length (Values (NewStruct people))" "AfterFind (View (NewStruct people)) = None"
    by (simp_all add: NewStruct_def people_def)
  have lr: "length ?r = length (Values (NewStruct refused))" "AfterFind (View (NewStruct refused)) = Some ?af"
    by (simp_all add: NewStruct_def refused_def people_def)
  have ls: "pending ?short = [IntV 1] # []" "length [IntV 1] \<noteq> length (Values (NewStruct people))"
    by (simp_all add: NewStruct_def people_def)
  have 1: "NextRow ?q (NewStruct people) ?none w0 = (Some ErrNoRows, NewStruct people, ?none, w0)"
    using NextRow_contract [of ?none ?q "NewStruct people" w0] by simp
  have 2: "NextRow ?q (NewStruct people) ?lost w0 = (Some (Other ''connection lost''), NewStruct people, ?lost, w0)"
    using NextRow_contract [of ?lost ?q "NewStruct people" w0] by simp
  have 3: "NextRow ?q (NewStruct people) two_rows_then_error w0
      = (None, (NewStruct people)\<lparr>Values := ?r\<rparr>, two_rows_then_error\<lparr>pending := ?rest\<rparr>, w0)"
    using NextRow_contract [of two_rows_then_error ?q "NewStruct people" w0 ?r ?rest] p lp by simp
  have 4: "NextRow ?q (NewStruct refused) two_rows_then_error w0
      = (snd (?af ?r), (NewStruct refused)\<lparr>Values := fst (?af ?r)\<rparr>, two_rows_then_error\<lparr>pending := ?rest\<rparr>,
         w0\<lparr>hook_log := hook_log w0 @ [AfterFindCall ?r]\<rparr>)"
    using NextRow_contract [of two_rows_then_error ?q "NewStruct refused" w0 ?r ?rest ?af] p lr by simp
  have 5: "NextRow ?q (NewStruct people) ?short w0
      = (Some (ScanArity (length [IntV 1]) (length (Values (NewStruct people)))), NewStruct people,
         ?short\<lparr>pending := []\<rparr>, w0)"
    using NextRow_contract [of ?short ?q "NewStruct people" w0 "[IntV 1]" "[]"] ls by simp
  from 1 2 3 4 5 show ?thesis
    by (simp add: NewStruct_def w0_def people_def)
qed

lemma SelectOneFrom_log:
  "sql_log (snd (snd (SelectOneFrom q v tail args w)))
     = sql_log w @ [QueryRowCall (Expand q (selectQuery q v tail True) (ToCol v)) args]"
  using SelectOneTo_log [of q "NewStruct v" tail args w]
  by (auto simp: SelectOneFrom_def NewStruct_def split: prod.splits option.splits)

lemma SelectRows_log:
  "sql_log (snd (SelectRows q v tail args w))
     = sql_log w @ [QueryCall (Expand q (selectQuery q v tail False) (ToCol v)) args]"
  by (simp add: SelectRows_def Query_def Let_def)

text \<open>
  C10. For the untyped nil argument, \<open>findTail\<close> makes the predicate
  \<open>WHERE <view>.<column> IS NULL\<close> with no placeholder, and \<open>FindOneTo\<close>, \<open>FindOneFrom\<close>
  and \<open>FindRows\<close> run the select with that tail and bind no argument. For any other
  argument it makes \<open>WHERE <view>.<column> = <Placeholder(1)>\<close>, and the three run the
  select binding exactly that argument. (Where one row is wanted and the dialect limits
  with LIMIT, \<open>LIMIT 1\<close> follows the predicate.)
\<close>

theorem find_null_or_placeholder:
  "(arg = Nil \<longrightarrow>
      findTail q view column arg limit1
        = (''WHERE '' @ QuoteIdentifier q view @ ''.'' @ QuoteIdentifier q column @ '' IS NULL''
             @ (if limit1 \<and> SelectLimitMethod q = Limit then '' LIMIT 1'' else ''''), False)
    \<and> FindOneTo q str column arg w
        = SelectOneTo q str (fst (findTail q (Name (View str)) column arg True)) [] w
    \<and> FindOneFrom q v column arg w
        = SelectOneFrom q v (fst (findTail q (Name v) column arg True)) [] w
    \<and> FindRows q v column arg w
        = SelectRows q v (fst (findTail q (Name v) column arg False)) [] w
    \<and> (\<exists>query. sql_log (snd (snd (FindOneTo q str column arg w))) = sql_log w @ [QueryRowCall query []])
    \<and> (\<exists>query. sql_log (snd (snd (FindOneFrom q v column arg w))) = sql_log w @ [QueryRowCall query []])
    \<and> (\<exists>query. sql_log (snd (FindRows q v column arg w)) = sql_log w @ [QueryCall query []]))
   \<and> (arg \<noteq> Nil \<longrightarrow>
      findTail q view column arg limit1
        = (''WHERE '' @ QuoteIdentifier q view @ ''.'' @ QuoteIdentifier q column @ '' = ''
             @ Placeholder q 1
             @ (if limit1 \<and> SelectLimitMethod q = Limit then '' LIMIT 1'' else ''''), True)
    \<and> FindOneTo q str column arg w
        = SelectOneTo q str (fst (findTail q (Name (View str)) column arg True)) [arg] w
    \<and> FindOneFrom q v column arg w
        = SelectOneFrom q v (fst (findTail q (Name v) column arg True)) [arg] w
    \<and> FindRows q v column arg w
        = SelectRows q v (fst (findTail q (Name v) column arg False)) [arg] w
    \<and> (\<exists>query. sql_log (snd (snd (FindOneTo q str column arg w))) = sql_log w @ [QueryRowCall query [arg]])
    \<and> (\<exists>query. sql_log (snd (snd (FindOneFrom q v column arg w))) = sql_log w @ [QueryRowCall query [arg]])
    \<and> (\<exists>query. sql_log (snd (FindRows q v column arg w)) = sql_log w @ [QueryCall query [arg]]))"
proof (intro conjI impI)
  assume n: "arg = Nil"
  show "findTail q view column arg limit1
        = (''WHERE '' @ QuoteIdentifier q view @ ''.'' @ QuoteIdentifier q column @ '' IS NULL''
             @ (if limit1 \<and> SelectLimitMethod q = Limit then '' LIMIT 1'' else ''''), False)"
    using n by (simp add: findTail_def Let_def)
  show a: "FindOneTo q str column arg w
        = SelectOneTo q str (fst (findTail q (Name (View str)) column arg True)) [] w"
    using n by (simp add: FindOneTo_def findTail_def Let_def)
  show b: "FindOneFrom q v column arg w
        = SelectOneFrom q v (fst (findTail q (Name v) column arg True)) [] w"
    using n by (simp add: FindOneFrom_def findTail_def Let_def)
  show c: "FindRows q v column arg w
        = SelectRows q v (fst (findTail q (Name v) column arg False)) [] w"
    using n by (simp add: FindRows_def findTail_def Let_def)
  show "\<exists>query. sql_log (snd (snd (FindOneTo q str column arg w))) = sql_log w @ [QueryRowCall query []]"
    unfolding a by (simp add: SelectOneTo_log)
  show "\<exists>query. sql_log (snd (snd (FindOneFrom q v column arg w))) = sql_log w @ [QueryRowCall query []]"
    unfolding b by (simp add: SelectOneFrom_log)
  show "\<exists>query. sql_log (snd (FindRows q v column arg w)) = sql_log w @ [QueryCall query []]"
    unfolding c by (simp add: SelectRows_log)
next
  assume n: "arg \<noteq> Nil"
  show "findTail q view column arg limit1
        = (''WHERE '' @ QuoteIdentifier q view @ ''.'' @ QuoteIdentifier q column @ '' = ''
             @ Placeholder q 1
             @ (if limit1 \<and> SelectLimitMethod q = Limit then '' LIMIT 1'' else ''''), True)"
    using n by (simp add: findTail_def Let_def)
  show a: "FindOneTo q str column arg w
        = SelectOneTo q str (fst (findTail q (Name (View str)) column arg True)) [arg] w"
    using n by (simp add: FindOneTo_def findTail_def Let_def)
  show b: "FindOneFrom q v column arg w
        = SelectOneFrom q v (fst (findTail q (Name v) column arg True)) [arg] w"
    using n by (simp add: FindOneFrom_def findTail_def Let_def)
  show c: "FindRows q v column arg w
        = SelectRows q v (fst (findTail q (Name v) column arg False)) [arg] w"
    using n by (simp add: FindRows_def findTail_def Let_def)
  show "\<exists>query. sql_log (snd (snd (FindOneTo q str column arg w))) = sql_log w @ [QueryRowCall query [arg]]"
    unfolding a by (simp add: SelectOneTo_log)
  show "\<exists>query. sql_log (snd (snd (FindOneFrom q v column arg w))) = sql_log w @ [QueryRowCall query [arg]]"
    unfolding b by (simp add: SelectOneFrom_log)
  show "\<exists>query. sql_log (snd (FindRows q v column arg w)) = sql_log w @ [QueryCall query [arg]]"
    unfolding c by (simp add: SelectRows_log)
qed

theorem find_null_or_placeholder_witness:
  "findTail (stub_querier postgresql (affected 0) no_rows (Inr None)) ''people'' ''name'' Nil True
     = (''WHERE '' @ [CHR 0x22] @ ''people'' @ [CHR 0x22] @ ''.'' @ [CHR 0x22] @ ''name'' @ [CHR 0x22]
          @ '' IS NULL LIMIT 1'', False)
   \<and> findTail (stub_querier postgresql (affected 0) no_rows (Inr None)) ''people'' ''name''
        (StrV ''Ann'') True
     = (''WHERE '' @ [CHR 0x22] @ ''people'' @ [CHR 0x22] @ ''.'' @ [CHR 0x22] @ ''name'' @ [CHR 0x22]
          @ '' = $1 LIMIT 1'', True)
   \<and> findTail (stub_querier mssql (affected 0) no_rows (Inr None)) ''people'' ''name'' NilPtr False
     = (''WHERE [people].[name] = ?'', True)
   \<and> sql_log (snd (FindRows (stub_querier mssql (affected 0) no_rows (Inr None)) people ''name'' Nil w0))
     = [QueryCall ''SELECT [people].[id], [people].[name], [people].[age] FROM [people] WHERE [people].[name] IS NULL'' []]
   \<and> sql_log (snd (FindRows (stub_querier mssql (affected 0) no_rows (Inr None)) people ''name''
                     (StrV ''Ann'') w0))
     = [QueryCall ''SELECT [people].[id], [people].[name], [people].[age] FROM [people] WHERE [people].[name] = ?''
          [StrV ''Ann'']]"
proof -
  let ?p = "stub_querier postgresql (affected 0) no_rows (Inr None)"
  let ?m = "stub_querier mssql (affected 0) no_rows (Inr None)"
  have n: "Nil = Nil" "StrV ''Ann'' \<noteq> Nil" "NilPtr \<noteq> Nil" by simp_all
  have d: "QuoteIdentifier ?p = (\<lambda>i. [CHR 0x22] @ i @ [CHR 0x22])" "SelectLimitMethod ?p = Limit"
      "Placeholder ?p 1 = ''$1''"
      "QuoteIdentifier ?m = (\<lambda>i. ''['' @ i @ '']'')" "SelectLimitMethod ?m = SelectTop"
      "Placeholder ?m 1 = ''?''"
    by (simp_all add: stub_querier_def postgresql_def mssql_def Itoa_def)
  have 1: "findTail ?p ''people'' ''name'' Nil True
     = (''WHERE '' @ [CHR 0x22] @ ''people'' @ [CHR 0x22] @ ''.'' @ [CHR 0x22] @ ''name'' @ [CHR 0x22]
          @ '' IS NULL LIMIT 1'', False)"
    using find_null_or_placeholder [of Nil ?p "''people''" "''name''" True] n d by simp
  have 2: "findTail ?p ''people'' ''name'' (StrV ''Ann'') True
     = (''WHERE '' @ [CHR 0x22] @ ''people'' @ [CHR 0x22] @ ''.'' @ [CHR 0x22] @ ''name'' @ [CHR 0x22]
          @ '' = $1 LIMIT 1'', True)"
    using find_null_or_placeholder [of "StrV ''Ann''" ?p "''people''" "''name''" True] n d by simp
  have 3: "findTail ?m ''people'' ''name'' NilPtr False = (''WHERE [people].[name] = ?'', True)"
    using find_null_or_placeholder [of NilPtr ?m "''people''" "''name''" False] n d by simp
  have 4: "FindRows ?m people ''name'' Nil w0
        = SelectRows ?m people (fst (findTail ?m (Name people) ''name'' Nil False)) [] w0"
    using find_null_or_placeholder [where arg = Nil and q = ?m and column = "''name''" and w = w0 and v = people]
    by simp
  have 5: "FindRows ?m people ''name'' (StrV ''Ann'') w0
        = SelectRows ?m people (fst (findTail ?m (Name people) ''name'' (StrV ''Ann'') False)) [StrV ''Ann''] w0"
    using find_null_or_placeholder [where arg = "StrV ''Ann''" and q = ?m and column = "''name''" and w = w0 and v = people]
    by simp
  have 6: "sql_log (snd (SelectRows ?m people (fst (findTail ?m (Name people) ''name'' Nil False)) [] w0))
     = [QueryCall ''SELECT [people].[id], [people].[name], [people].[age] FROM [people] WHERE [people].[name] IS NULL'' []]"
    by (simp add: SelectRows_def Query_def selectQuery_def findTail_def Let_def
        stub_querier_def mssql_def people_def w0_def)
  have 7: "sql_log (snd (SelectRows ?m people (fst (findTail ?m (Name people) ''name'' (StrV ''Ann'') False))
                 [StrV ''Ann''] w0))
     = [QueryCall ''SELECT [people].[id], [people].[name], [people].[age] FROM [people] WHERE [people].[name] = ?''
          [StrV ''Ann'']]"
    by (simp add: SelectRows_def Query_def selectQuery_def findTail_def Let_def
        stub_querier_def mssql_def people_def w0_def)
  from 1 2 3 6 7 show ?thesis
    unfolding 4 5 by simp
qed


end
